theory Spec2Isabelle
  imports Complex_Main
begin

section \<open>Numbers of the source language\<close>

text \<open>
  Every numeric field of the TypeScript source has the type \<open>number\<close>. The model keeps
  the finite values exactly, as rationals, together with the three values that are not
  finite. Two things of binary floating point are outside the model: the rounding of a
  result to the nearest representable value, and the sign of zero (a division by zero
  takes the zero as positive).
\<close>

datatype number = NaN | PosInfinity | NegInfinity | Num rat

fun infinity :: "bool \<Rightarrow> number" where
  "infinity True = PosInfinity"
| "infinity False = NegInfinity"

fun num_neg :: "number \<Rightarrow> number" where
  "num_neg (Num x) = Num (- x)"
| "num_neg PosInfinity = NegInfinity"
| "num_neg NegInfinity = PosInfinity"
| "num_neg NaN = NaN"

fun num_add :: "number \<Rightarrow> number \<Rightarrow> number" where
  "num_add (Num x) (Num y) = Num (x + y)"
| "num_add NaN b = NaN"
| "num_add a NaN = NaN"
| "num_add PosInfinity NegInfinity = NaN"
| "num_add NegInfinity PosInfinity = NaN"
| "num_add PosInfinity b = PosInfinity"
| "num_add NegInfinity b = NegInfinity"
| "num_add a PosInfinity = PosInfinity"
| "num_add a NegInfinity = NegInfinity"

definition num_sub :: "number \<Rightarrow> number \<Rightarrow> number" where
  "num_sub a b = num_add a (num_neg b)"

fun num_mul :: "number \<Rightarrow> number \<Rightarrow> number" where
  "num_mul (Num x) (Num y) = Num (x * y)"
| "num_mul NaN b = NaN"
| "num_mul a NaN = NaN"
| "num_mul (Num x) PosInfinity = (if x = 0 then NaN else infinity (0 < x))"
| "num_mul (Num x) NegInfinity = (if x = 0 then NaN else infinity (x < 0))"
| "num_mul PosInfinity (Num y) = (if y = 0 then NaN else infinity (0 < y))"
| "num_mul NegInfinity (Num y) = (if y = 0 then NaN else infinity (y < 0))"
| "num_mul PosInfinity PosInfinity = PosInfinity"
| "num_mul NegInfinity NegInfinity = PosInfinity"
| "num_mul PosInfinity NegInfinity = NegInfinity"
| "num_mul NegInfinity PosInfinity = NegInfinity"

fun num_div :: "number \<Rightarrow> number \<Rightarrow> number" where
  "num_div (Num x) (Num y) =
     (if y = 0 then (if x = 0 then NaN else infinity (0 < x)) else Num (x / y))"
| "num_div NaN b = NaN"
| "num_div a NaN = NaN"
| "num_div (Num x) b = Num 0"
| "num_div PosInfinity (Num y) = infinity (0 \<le> y)"
| "num_div NegInfinity (Num y) = infinity (y < 0)"
| "num_div a b = NaN"

text \<open>The comparison \<open>a <= b\<close>: false as soon as one side is \<open>NaN\<close>.\<close>

fun num_le :: "number \<Rightarrow> number \<Rightarrow> bool" where
  "num_le (Num x) (Num y) = (x \<le> y)"
| "num_le NaN b = False"
| "num_le a NaN = False"
| "num_le NegInfinity b = True"
| "num_le a PosInfinity = True"
| "num_le a b = False"

fun num_lt :: "number \<Rightarrow> number \<Rightarrow> bool" where
  "num_lt (Num x) (Num y) = (x < y)"
| "num_lt NaN b = False"
| "num_lt a NaN = False"
| "num_lt PosInfinity b = False"
| "num_lt a NegInfinity = False"
| "num_lt a b = True"

text \<open>The strict equality \<open>a === b\<close> on numbers: \<open>NaN\<close> equals nothing.\<close>

definition strict_eq :: "number \<Rightarrow> number \<Rightarrow> bool" where
  "strict_eq a b = (a \<noteq> NaN \<and> a = b)"

text \<open>A number in a condition counts as true unless it is zero or \<open>NaN\<close>.\<close>

definition truthy :: "number \<Rightarrow> bool" where
  "truthy a = (a \<noteq> NaN \<and> a \<noteq> Num 0)"

text \<open>\<open>Math.round\<close> rounds to the nearest integer, a half towards plus infinity.\<close>

fun Math_round :: "number \<Rightarrow> number" where
  "Math_round (Num x) = Num (of_int \<lfloor>x + 1 / 2\<rfloor>)"
| "Math_round a = a"

section \<open>Text patterns over diagnostic lines\<close>

text \<open>
  The regular expressions of the source are sequences of literal text, single characters
  of a class and greedy repetitions \<open>+\<close> of a class, some of them named groups; the two
  for silences and for frame events are modelled. In each of them a repetition is
  followed by a literal character outside its class, or ends the pattern, so that the
  longest run of class characters is the only one a backtracking matcher can succeed
  with: the matcher below takes that run.
\<close>

datatype charclass = Digit | WordChar | DigitOrDot

definition is_digit :: "char \<Rightarrow> bool" where
  "is_digit c = (48 \<le> (of_char c :: nat) \<and> (of_char c :: nat) \<le> 57)"

definition is_word :: "char \<Rightarrow> bool" where
  "is_word c =
     (is_digit c \<or> (65 \<le> (of_char c :: nat) \<and> (of_char c :: nat) \<le> 90)
      \<or> (97 \<le> (of_char c :: nat) \<and> (of_char c :: nat) \<le> 122) \<or> c = CHR ''_'')"

fun in_class :: "charclass \<Rightarrow> char \<Rightarrow> bool" where
  "in_class Digit c = is_digit c"
| "in_class WordChar c = is_word c"
| "in_class DigitOrDot c = (is_digit c \<or> c = CHR ''.'')"

datatype piece =
    Lit string
  | One charclass
  | Many charclass
  | Group string charclass

type_synonym groups = "(string \<times> string) list"

fun strip_prefix :: "string \<Rightarrow> string \<Rightarrow> string option" where
  "strip_prefix [] s = Some s"
| "strip_prefix (p # ps) [] = None"
| "strip_prefix (p # ps) (c # cs) = (if p = c then strip_prefix ps cs else None)"

fun match_here :: "piece list \<Rightarrow> string \<Rightarrow> groups option" where
  "match_here [] s = Some []"
| "match_here (Lit l # ps) s =
     (case strip_prefix l s of None \<Rightarrow> None | Some r \<Rightarrow> match_here ps r)"
| "match_here (One k # ps) s =
     (case s of [] \<Rightarrow> None
      | c # r \<Rightarrow> if in_class k c then match_here ps r else None)"
| "match_here (Many k # ps) s =
     (if takeWhile (in_class k) s = [] then None
      else match_here ps (dropWhile (in_class k) s))"
| "match_here (Group n k # ps) s =
     (if takeWhile (in_class k) s = [] then None
      else (case match_here ps (dropWhile (in_class k) s) of
              None \<Rightarrow> None
            | Some gs \<Rightarrow> Some ((n, takeWhile (in_class k) s) # gs)))"

text \<open>\<open>line.match(pattern)\<close> without the global flag: the leftmost match, or nothing.\<close>

fun regex_match :: "piece list \<Rightarrow> string \<Rightarrow> groups option" where
  "regex_match ps [] = match_here ps []"
| "regex_match ps (c # cs) =
     (case match_here ps (c # cs) of None \<Rightarrow> regex_match ps cs | Some gs \<Rightarrow> Some gs)"

text \<open>
  A named group of a successful match. Every group of the patterns below is mandatory,
  so the lookup always finds it; the empty text stands for a missing one (both parse to
  \<open>NaN\<close>).
\<close>

definition group :: "groups \<Rightarrow> string \<Rightarrow> string" where
  "group gs n = (case map_of gs n of None \<Rightarrow> [] | Some s \<Rightarrow> s)"

definition BLACKFRAME_FILTER_OUTPUT_PATTERN :: "piece list" where
  "BLACKFRAME_FILTER_OUTPUT_PATTERN =
     [Lit ''[Parsed_blackframe_'', Group ''filterNum'' Digit, Lit '' @ '', Many WordChar,
      Lit '']'', Lit '' '',
      Lit ''frame:'', Group ''frame'' Digit, Lit '' '',
      Lit ''pblack:'', Group ''pctBlack'' Digit, Lit '' '',
      Lit ''pts:'', Many Digit, Lit '' '',
      Lit ''t:'', Group ''time'' DigitOrDot, Lit '' '',
      Lit ''type:'', One WordChar, Lit '' '',
      Lit ''last_keyframe:'', Many Digit]"

definition SILENCEDETECT_FILTER_OUTPUT_PATTERN :: "piece list" where
  "SILENCEDETECT_FILTER_OUTPUT_PATTERN =
     [Lit ''[silencedetect @ '', Many WordChar, Lit '']'', Lit '' '',
      Lit ''silence_end: '', Group ''endTime'' DigitOrDot, Lit '' |'', Lit '' '',
      Lit ''silence_duration: '', Group ''duration'' DigitOrDot]"

subsection \<open>The patterns under backtracking\<close>

text \<open>
  For reference, the matcher as the regular expression engine runs it: a greedy repetition
  first takes its longest run and then gives up one character at a time until the rest
  of the pattern matches. A pattern is unambiguous when each of its repetitions ends the
  pattern or stands before a literal whose first character is outside the class; for
  such patterns both matchers agree, as is proved below.
\<close>

fun first_some :: "('a \<Rightarrow> 'b option) \<Rightarrow> 'a list \<Rightarrow> 'b option" where
  "first_some f [] = None"
| "first_some f (x # xs) = (case f x of None \<Rightarrow> first_some f xs | Some y \<Rightarrow> Some y)"

fun run_lengths :: "nat \<Rightarrow> nat list" where
  "run_lengths 0 = []"
| "run_lengths (Suc n) = Suc n # run_lengths n"

fun backtrack_here :: "piece list \<Rightarrow> string \<Rightarrow> groups option" where
  "backtrack_here [] s = Some []"
| "backtrack_here (Lit l # ps) s =
     (case strip_prefix l s of None \<Rightarrow> None | Some r \<Rightarrow> backtrack_here ps r)"
| "backtrack_here (One k # ps) s =
     (case s of [] \<Rightarrow> None
      | c # r \<Rightarrow> if in_class k c then backtrack_here ps r else None)"
| "backtrack_here (Many k # ps) s =
     first_some (\<lambda>n. backtrack_here ps (drop n s))
       (run_lengths (length (takeWhile (in_class k) s)))"
| "backtrack_here (Group g k # ps) s =
     first_some (\<lambda>n. case backtrack_here ps (drop n s) of
                        None \<Rightarrow> None
                      | Some gs \<Rightarrow> Some ((g, take n s) # gs))
       (run_lengths (length (takeWhile (in_class k) s)))"

fun stops :: "charclass \<Rightarrow> piece list \<Rightarrow> bool" where
  "stops k [] = True"
| "stops k (Lit (c # l) # ps) = (\<not> in_class k c)"
| "stops k ps = False"

fun unambiguous :: "piece list \<Rightarrow> bool" where
  "unambiguous [] = True"
| "unambiguous (Lit l # ps) = unambiguous ps"
| "unambiguous (One k # ps) = unambiguous ps"
| "unambiguous (Many k # ps) = (stops k ps \<and> unambiguous ps)"
| "unambiguous (Group g k # ps) = (stops k ps \<and> unambiguous ps)"

text \<open>
  \<open>parseFloat\<close> and \<open>parseInt\<close> on the texts the groups can hold, digits and dots: the
  longest prefix that is a decimal literal, \<open>NaN\<close> when there is none.
\<close>

definition digit_val :: "char \<Rightarrow> nat" where
  "digit_val c = of_char c - 48"

definition digits_val :: "string \<Rightarrow> nat" where
  "digits_val s = foldl (\<lambda>n c. 10 * n + digit_val c) 0 s"

definition parseInt :: "string \<Rightarrow> number" where
  "parseInt s =
     (let ds = takeWhile is_digit s
      in if ds = [] then NaN else Num (of_nat (digits_val ds)))"

definition parseFloat :: "string \<Rightarrow> number" where
  "parseFloat s =
     (let ip = takeWhile is_digit s;
          fp = (case dropWhile is_digit s of
                  [] \<Rightarrow> []
                | c # r \<Rightarrow> if c = CHR ''.'' then takeWhile is_digit r else [])
      in if ip = [] \<and> fp = [] then NaN
         else Num (of_nat (digits_val ip) + of_nat (digits_val fp) / 10 ^ length fp))"

section \<open>Silences\<close>

record Silence =
  startTime :: number
  endTime :: number

definition silence_of :: "groups \<Rightarrow> Silence" where
  "silence_of gs =
     \<lparr>startTime =
        Math_round (num_mul (num_sub (parseFloat (group gs ''endTime''))
                                     (parseFloat (group gs ''duration''))) (Num 1000)),
      endTime = Math_round (num_mul (parseFloat (group gs ''endTime'')) (Num 1000))\<rparr>"

definition findSilences :: "string list \<Rightarrow> Silence list" where
  "findSilences ffmpegLines =
     map silence_of
       [gs. Some gs \<leftarrow> map (regex_match SILENCEDETECT_FILTER_OUTPUT_PATTERN) ffmpegLines]"

section \<open>Errors\<close>

text \<open>
  What the source throws, by origin: the interval tree rejecting an interval whose low end
  lies above its high end, a property read on a missing array element, a failed run of an
  external program (or unreadable output of it), and the probe finding no dimensions.
\<close>

datatype error =
    IntervalOrder
  | TypeError
  | ExecuteFailed string
  | Error string

section \<open>Frame events and search strategies\<close>

record FrameSearchStrategy =
  name :: string
  filters :: "number list"
  maxSkip :: "number option"
  minSilenceSeconds :: "number option"
  minFrames :: number

record BlackframeOutput =
  filterNum :: number
  frameNum :: number
  time :: number

record DetectedFeature =
  start :: number
  end' :: number
  firstFrame :: number
  lastFrame :: number

definition BOUNDARY_STRATEGIES :: "FrameSearchStrategy list" where
  "BOUNDARY_STRATEGIES =
     [\<lparr>name = ''black-logo'', filters = [Num 11], maxSkip = None,
       minSilenceSeconds = Some (Num (3 / 2)), minFrames = Num 5\<rparr>,
      \<lparr>name = ''white-logo'', filters = [Num 13], maxSkip = None,
       minSilenceSeconds = Some (Num (3 / 2)), minFrames = Num 5\<rparr>,
      \<lparr>name = ''white-borders-logo'', filters = [Num 15], maxSkip = None,
       minSilenceSeconds = Some (Num (3 / 2)), minFrames = Num 5\<rparr>,
      \<lparr>name = ''black-logo-ai-subtitles'', filters = [Num 17], maxSkip = None,
       minSilenceSeconds = Some (Num (3 / 2)), minFrames = Num 5\<rparr>,
      \<lparr>name = ''black-no-logo-ai-subtitles'', filters = [Num 19], maxSkip = None,
       minSilenceSeconds = Some (Num (3 / 2)), minFrames = Num 5\<rparr>,
      \<lparr>name = ''no-logo'', filters = [Num 20], maxSkip = None,
       minSilenceSeconds = Some (Num (1 / 10)), minFrames = Num 3\<rparr>,
      \<lparr>name = ''newsline'', filters = [Num 22], maxSkip = None,
       minSilenceSeconds = Some (Num 0), minFrames = Num 1\<rparr>]"

definition NEWS_BANNER_STRATEGY :: FrameSearchStrategy where
  "NEWS_BANNER_STRATEGY =
     \<lparr>name = ''news-banner-background'', filters = [Num 13], maxSkip = Some (Num 120),
      minSilenceSeconds = None, minFrames = Num 120\<rparr>"

definition blackframe_of :: "groups \<Rightarrow> BlackframeOutput" where
  "blackframe_of gs =
     \<lparr>filterNum = parseInt (group gs ''filterNum''),
      frameNum = parseInt (group gs ''frame''),
      time = Math_round (num_mul (parseFloat (group gs ''time'')) (Num 1000))\<rparr>"

definition blackframes :: "string list \<Rightarrow> BlackframeOutput list" where
  "blackframes ffmpegLines =
     map blackframe_of
       [gs. Some gs \<leftarrow> map (regex_match BLACKFRAME_FILTER_OUTPUT_PATTERN) ffmpegLines]"

section \<open>The interval tree of silences\<close>

text \<open>
  The tree comes from the package \<open>node-interval-tree\<close>, which is not part of the
  repository. The model keeps what the package documents: \<open>insert(low, high, data)\<close>
  needs \<open>low <= high\<close> and fails otherwise, it stores nothing when the same interval with
  the same data is stored already, and \<open>search(low, high)\<close> returns the data of every
  stored interval that overlaps the closed interval from \<open>low\<close> to \<open>high\<close>. The order of
  several results depends on the shape of the balanced tree inside the package; the model
  lists them in the order of insertion.
\<close>

type_synonym IntervalTree = "(number \<times> number \<times> number) list"

definition tree_insert ::
  "IntervalTree \<Rightarrow> number \<Rightarrow> number \<Rightarrow> number \<Rightarrow> error + IntervalTree" where
  "tree_insert tree lo hi d =
     (if num_lt hi lo then Inl IntervalOrder
      else if (lo, hi, d) \<in> set tree then Inr tree
      else Inr (tree @ [(lo, hi, d)]))"

definition tree_search :: "IntervalTree \<Rightarrow> number \<Rightarrow> number \<Rightarrow> number list" where
  "tree_search tree lo hi = [d. (l, h, d) \<leftarrow> tree, num_le l hi \<and> num_le lo h]"

text \<open>
  \<open>silences.reduce((tree, silence) => { tree.insert(...); return tree }, new IntervalTree())\<close>
\<close>

fun insert_silences :: "IntervalTree \<Rightarrow> Silence list \<Rightarrow> error + IntervalTree" where
  "insert_silences tree [] = Inr tree"
| "insert_silences tree (silence # rest) =
     (case tree_insert tree (startTime silence) (endTime silence)
             (num_sub (endTime silence) (startTime silence)) of
        Inl e \<Rightarrow> Inl e
      | Inr tree' \<Rightarrow> insert_silences tree' rest)"

section \<open>Sorting with \<open>compareFunc\<close>\<close>

text \<open>
  \<open>compareFunc(props)\<close>, of the package \<open>compare-func\<close>, compares two objects property by
  property: it reads the named property of both, goes on to the next name when the two
  values are strictly equal, and otherwise answers \<open>-1\<close> when the first value is below
  the second and \<open>1\<close> when not. A property the object does not have reads as
  \<open>undefined\<close>, here \<open>None\<close>; \<open>undefined\<close> is strictly equal to itself and below nothing.
\<close>

definition getProp :: "BlackframeOutput \<Rightarrow> string \<Rightarrow> number option" where
  "getProp ev p =
     (if p = ''filterNum'' then Some (filterNum ev)
      else if p = ''frameNum'' then Some (frameNum ev)
      else if p = ''time'' then Some (time ev)
      else None)"

fun prop_strict_eq :: "number option \<Rightarrow> number option \<Rightarrow> bool" where
  "prop_strict_eq None None = True"
| "prop_strict_eq (Some a) (Some b) = strict_eq a b"
| "prop_strict_eq x y = False"

fun prop_lt :: "number option \<Rightarrow> number option \<Rightarrow> bool" where
  "prop_lt (Some a) (Some b) = num_lt a b"
| "prop_lt x y = False"

fun compareFunc :: "string list \<Rightarrow> BlackframeOutput \<Rightarrow> BlackframeOutput \<Rightarrow> int" where
  "compareFunc [] a b = 0"
| "compareFunc (el # els) a b =
     (if prop_strict_eq (getProp a el) (getProp b el) then compareFunc els a b
      else if prop_lt (getProp a el) (getProp b el) then - 1 else 1)"

text \<open>
  \<open>Array.prototype.sort\<close> is stable: elements that the comparator does not order keep
  their places relative to each other. Inserting the elements from the right, each
  before the first element it is not above, computes that order.
\<close>

fun insert_by :: "('a \<Rightarrow> 'a \<Rightarrow> int) \<Rightarrow> 'a \<Rightarrow> 'a list \<Rightarrow> 'a list" where
  "insert_by cmp x [] = [x]"
| "insert_by cmp x (y # ys) = (if cmp x y \<le> 0 then x # y # ys else y # insert_by cmp x ys)"

definition sort_with :: "('a \<Rightarrow> 'a \<Rightarrow> int) \<Rightarrow> 'a list \<Rightarrow> 'a list" where
  "sort_with cmp xs = foldr (insert_by cmp) xs []"

section \<open>Grouping frame events into runs\<close>

text \<open>
  The silence test of the source reads
  \<^verbatim>\<open>head(candidateWindows.search(time, time)) ?? 0 >= (strategy.minSilenceSeconds ?? 0)\<close>.
  The comparison \<open>>=\<close> binds tighter than \<open>??\<close>, so this is the first search result when
  there is one, taken as a condition, and \<open>0 >= (strategy.minSilenceSeconds ?? 0)\<close>
  when the search finds nothing.
\<close>

definition silence_test :: "FrameSearchStrategy \<Rightarrow> IntervalTree \<Rightarrow> BlackframeOutput \<Rightarrow> bool" where
  "silence_test strategy candidateWindows ev =
     (case tree_search candidateWindows (time ev) (time ev) of
        d # ds \<Rightarrow> truthy d
      | [] \<Rightarrow> num_le (case minSilenceSeconds strategy of None \<Rightarrow> Num 0 | Some m \<Rightarrow> m) (Num 0))"

definition frames_for_grouping ::
  "string list \<Rightarrow> FrameSearchStrategy \<Rightarrow> IntervalTree \<Rightarrow> BlackframeOutput list" where
  "frames_for_grouping ffmpegLines strategy candidateWindows =
     sort_with (compareFunc [''filterNum'', ''frame''])
       (filter (silence_test strategy candidateWindows)
          (filter (\<lambda>ev. filterNum ev \<in> set (filters strategy)) (blackframes ffmpegLines)))"

text \<open>
  The condition under which the reducer appends a frame to the current run:
  \<^verbatim>\<open>frame.frameNum - lastFrame.frameNum <= (strategy.maxSkip ?? 1) &&
  frame.filterNum === lastFrame.filterNum\<close>.
\<close>

definition extends_run ::
  "FrameSearchStrategy \<Rightarrow> BlackframeOutput \<Rightarrow> BlackframeOutput \<Rightarrow> bool" where
  "extends_run strategy lastOfRun frame =
     (num_le (num_sub (frameNum frame) (frameNum lastOfRun))
        (case maxSkip strategy of None \<Rightarrow> Num 1 | Some m \<Rightarrow> m)
      \<and> strict_eq (filterNum frame) (filterNum lastOfRun))"

text \<open>
  One step of the reducer. The source takes the last run (a fresh empty one when there is
  none), pushes it onto the list when it is empty, and then either pushes the frame onto
  that run, in place, or pushes a new run holding the frame. With an empty last run in a
  list that is not empty the same array would stand in the list twice, and the push in
  place would show in both: the second case below.
\<close>

definition group_step ::
  "FrameSearchStrategy \<Rightarrow> BlackframeOutput list list \<Rightarrow> BlackframeOutput
    \<Rightarrow> BlackframeOutput list list" where
  "group_step strategy frameGroups frame =
     (if frameGroups = [] then [[frame]]
      else if last frameGroups = [] then butlast frameGroups @ [[frame], [frame]]
      else if extends_run strategy (last (last frameGroups)) frame
        then butlast frameGroups @ [last frameGroups @ [frame]]
      else frameGroups @ [[frame]])"

definition group_frames ::
  "FrameSearchStrategy \<Rightarrow> BlackframeOutput list \<Rightarrow> BlackframeOutput list list" where
  "group_frames strategy frames = foldl (group_step strategy) [] frames"

text \<open>A run as a feature; the source reads the first and the last frame of the run.\<close>

fun feature_of :: "BlackframeOutput list \<Rightarrow> error + DetectedFeature" where
  "feature_of [] = Inl TypeError"
| "feature_of (f # fs) =
     Inr \<lparr>start = time f, end' = time (last (f # fs)),
          firstFrame = frameNum f, lastFrame = frameNum (last (f # fs))\<rparr>"

fun collect :: "(error + 'a) list \<Rightarrow> error + 'a list" where
  "collect [] = Inr []"
| "collect (r # rs) =
     (case r of
        Inl e \<Rightarrow> Inl e
      | Inr x \<Rightarrow> (case collect rs of Inl e \<Rightarrow> Inl e | Inr xs \<Rightarrow> Inr (x # xs)))"

definition long_enough :: "FrameSearchStrategy \<Rightarrow> BlackframeOutput list \<Rightarrow> bool" where
  "long_enough strategy frameGroup =
     num_le (minFrames strategy) (Num (of_nat (length frameGroup)))"

definition findBlackframeGroups ::
  "string list \<Rightarrow> FrameSearchStrategy \<Rightarrow> IntervalTree \<Rightarrow> error + DetectedFeature list" where
  "findBlackframeGroups ffmpegLines strategy candidateWindows =
     collect (map feature_of
       (filter (long_enough strategy)
          (group_frames strategy
             (frames_for_grouping ffmpegLines strategy candidateWindows))))"

section \<open>The boundary search\<close>

text \<open>
  The log of the search, as far as it tells which strategies ran: the silences found, the
  early end of the search, and per strategy its name and its candidates.
\<close>

datatype log_message =
    FoundSilences "Silence list"
  | NoSilences
  | Searching string
  | FoundCandidates "DetectedFeature list"

fun search_strategies ::
  "string list \<Rightarrow> IntervalTree \<Rightarrow> FrameSearchStrategy list \<Rightarrow> log_message list
    \<Rightarrow> error + (log_message list \<times> DetectedFeature list)" where
  "search_strategies outputLines candidateWindows [] logged = Inr (logged, [])"
| "search_strategies outputLines candidateWindows (strategy # rest) logged =
     (case findBlackframeGroups outputLines strategy candidateWindows of
        Inl e \<Rightarrow> Inl e
      | Inr candidates \<Rightarrow>
          if 0 < length candidates
          then Inr (logged @ [Searching (name strategy), FoundCandidates candidates], candidates)
          else search_strategies outputLines candidateWindows rest
                 (logged @ [Searching (name strategy), FoundCandidates candidates]))"

text \<open>
  \<open>detectPotentialBoundaries\<close>, from the point where the analysis run has ended: its
  outcome, the diagnostic lines or the failure, is the argument. The result is the log
  and the candidates.
\<close>

definition detectPotentialBoundaries ::
  "error + string list \<Rightarrow> error + (log_message list \<times> DetectedFeature list)" where
  "detectPotentialBoundaries executed =
     (case executed of
        Inl e \<Rightarrow> Inl e
      | Inr outputLines \<Rightarrow>
          if length (findSilences outputLines) = 0
          then Inr ([FoundSilences (findSilences outputLines), NoSilences], [])
          else (case insert_silences [] (findSilences outputLines) of
                  Inl e \<Rightarrow> Inl e
                | Inr candidateWindows \<Rightarrow>
                    search_strategies outputLines candidateWindows BOUNDARY_STRATEGIES
                      [FoundSilences (findSilences outputLines)]))"

section \<open>The filter graph of the post-processing\<close>

text \<open>
  A template literal turns a number into text. How the source language writes a number
  that is not an integer depends on its binary representation, so the functions that
  build text take the rendering of numbers as their first argument, \<open>str\<close>.
\<close>

record CropParameters =
  time :: number
  width :: number

text \<open>
  \<open>generateTimeSequence\<close> reads \<open>time\<close> and \<open>width\<close> of the last observation; with no
  observation left \<open>time\<close> is undefined and \<open>width\<close> takes the default. It answers the
  plain value when \<open>time\<close> is undefined, zero or \<open>NaN\<close>, and recurses on the observations
  before the last otherwise.
\<close>

function generateTimeSequence ::
  "(number \<Rightarrow> string) \<Rightarrow> (number \<Rightarrow> number) \<Rightarrow> CropParameters list \<Rightarrow> number \<Rightarrow> string" where
  "generateTimeSequence str calcValue cropParameters defaultWidth =
     (if cropParameters = [] then str (calcValue defaultWidth)
      else if \<not> truthy (time (last cropParameters))
        then str (calcValue (width (last cropParameters)))
      else ''if(gte(t,'' @ str (num_div (time (last cropParameters)) (Num 1000)) @ ''),''
           @ str (calcValue (width (last cropParameters))) @ '',''
           @ generateTimeSequence str calcValue (butlast cropParameters) defaultWidth
           @ '')'')"
  by pat_completeness auto
termination
  by (relation "measure (\<lambda>(str, calcValue, cropParameters, defaultWidth). length cropParameters)")
     auto

declare generateTimeSequence.simps [simp del]

definition makeCalculateScaleWidth :: "number \<Rightarrow> number \<Rightarrow> number" where
  "makeCalculateScaleWidth outputWidth cropWidth =
     num_mul (Math_round (num_div (num_div (num_mul outputWidth outputWidth) cropWidth) (Num 2)))
       (Num 2)"

definition makeCalculateOverlayPosition :: "number \<Rightarrow> number \<Rightarrow> number" where
  "makeCalculateOverlayPosition outputWidth cropWidth =
     Math_round (num_div (num_sub cropWidth outputWidth) (Num 2))"

fun join :: "string \<Rightarrow> string list \<Rightarrow> string" where
  "join sep [] = []"
| "join sep [x] = x"
| "join sep (x # y # ys) = x @ sep @ join sep (y # ys)"

definition generateFilterChain ::
  "(number \<Rightarrow> string) \<Rightarrow> number \<Rightarrow> CropParameters list \<Rightarrow> bool \<Rightarrow> number \<Rightarrow> number
    \<Rightarrow> string list" where
  "generateFilterChain str start_ms cropParameters hasThumbnail targetWidth targetHeight =
     (let filterGraph = join '';''
        ((if 0 < length cropParameters
          then [''nullsrc=size='' @ str targetWidth @ ''x'' @ str targetHeight
                  @ '':r=29.97[base]'',
                ''[base][0:0]overlay='' @ [CHR 0x27]
                  @ generateTimeSequence str (makeCalculateOverlayPosition targetWidth)
                      cropParameters targetWidth
                  @ [CHR 0x27] @ '':0:shortest=1[o]'',
                ''[o]scale='' @ [CHR 0x27]
                  @ generateTimeSequence str (makeCalculateScaleWidth targetWidth)
                      cropParameters targetWidth
                  @ [CHR 0x27] @ '':-1:eval=frame:flags=bicubic[s]'',
                ''[s]crop='' @ str targetWidth @ '':'' @ str targetHeight @ '':0:0[c]'']
          else [])
         @ (if hasThumbnail
            then [''[1:2]setpts=PTS+'' @ str (num_div start_ms (Num 1000)) @ ''/TB[tn]'']
            else []))
      in if filterGraph \<noteq> [] then [''-filter_complex'', filterGraph] else [])"

record Config =
  threadLimit :: number

definition getFfmpegPostProcessArguments ::
  "(number \<Rightarrow> string) \<Rightarrow> Config \<Rightarrow> string \<Rightarrow> string \<Rightarrow> number \<Rightarrow> number
    \<Rightarrow> CropParameters list \<Rightarrow> bool \<Rightarrow> number \<Rightarrow> number \<Rightarrow> string list" where
  "getFfmpegPostProcessArguments str config inputPath outputPath start_ms end_ms
       cropParameters hasThumbnail targetWidth targetHeight =
     [''-y'']
     @ (if num_lt (Num 0) (threadLimit config)
        then [''-threads'', str (threadLimit config)] else [])
     @ [''-i'', inputPath]
     @ (if hasThumbnail then [''-i'', inputPath] else [])
     @ [''-ss'', str (num_div start_ms (Num 1000))]
     @ (if truthy end_ms then [''-to'', str (num_div end_ms (Num 1000))] else [])
     @ [''-codec'', ''copy'']
     @ generateFilterChain str start_ms cropParameters hasThumbnail targetWidth targetHeight
     @ (if 0 < length cropParameters
        then [''-map'', ''[c]'', ''-crf'', ''19'', ''-preset'', ''veryfast'',
              ''-codec:v:0'', ''libx264'']
        else [''-map'', ''0:0''])
     @ [''-map'', ''0:1'']
     @ (if hasThumbnail
        then [''-map'', ''[tn]'', ''-codec:v:1'', ''mjpeg'',
              ''-disposition:v:1'', ''attached_pic'']
        else [])
     @ [''-map_metadata'', ''0'']
     @ [''-f'', ''mp4'']
     @ [outputPath]"

section \<open>Probing the dimensions\<close>

text \<open>
  The probe prints a document with an optional list \<open>streams\<close>, whose first entry may
  hold \<open>width\<close>, \<open>height\<close>, \<open>coded_width\<close> and \<open>coded_height\<close>. A field that is missing
  or \<open>null\<close> is \<open>None\<close>.
\<close>

record ProbeStream =
  width :: "number option"
  height :: "number option"
  coded_width :: "number option"
  coded_height :: "number option"

record ProbeResult =
  streams :: "ProbeStream list option"

record Dimensions =
  width :: number
  height :: number

definition FULL_CROP_WIDTH :: number where
  "FULL_CROP_WIDTH = Num 1920"

text \<open>
  \<open>getVideoDimensions\<close>, from the point where the probe has run: the argument is the
  parsed document, or the failure of the run or of the parsing.
\<close>

definition getVideoDimensions :: "error + ProbeResult \<Rightarrow> error + Dimensions" where
  "getVideoDimensions probed =
     (case probed of
        Inl e \<Rightarrow> Inl e
      | Inr result \<Rightarrow>
          (let stream =
                 (case (case streams result of None \<Rightarrow> [] | Some ss \<Rightarrow> ss) of
                    [] \<Rightarrow> \<lparr>ProbeStream.width = None, ProbeStream.height = None,
                           coded_width = None, coded_height = None\<rparr>
                  | s # ss \<Rightarrow> s);
               w = (case ProbeStream.width stream of
                      None \<Rightarrow> coded_width stream | Some v \<Rightarrow> Some v);
               h = (case ProbeStream.height stream of
                      None \<Rightarrow> coded_height stream | Some v \<Rightarrow> Some v)
           in (case (w, h) of
                 (Some wv, Some hv) \<Rightarrow>
                   if \<not> truthy wv \<or> \<not> truthy hv
                   then Inl (Error ''Unable to read video dimensions'')
                   else Inr \<lparr>Dimensions.width = wv, Dimensions.height = hv\<rparr>
               | _ \<Rightarrow> Inl (Error ''Unable to read video dimensions''))))"

text \<open>
  \<open>postProcessRecording\<close> with its three external runs as arguments: the outcome of
  counting the streams, the outcome of probing the dimensions, and the run of the
  encoder on an argument list. The result is the encoder's outcome, or the failure that
  ended the function before.
\<close>

definition postProcessRecording ::
  "(number \<Rightarrow> string) \<Rightarrow> Config \<Rightarrow> error + number \<Rightarrow> error + ProbeResult
    \<Rightarrow> (string list \<Rightarrow> error + unit)
    \<Rightarrow> string \<Rightarrow> string \<Rightarrow> number \<Rightarrow> number \<Rightarrow> CropParameters list \<Rightarrow> error + unit" where
  "postProcessRecording str config streamCount probed execute inputPath outputPath
       start_ms end_ms cropParameters =
     (case streamCount of
        Inl e \<Rightarrow> Inl e
      | Inr n \<Rightarrow>
          (let hasThumbnail = num_lt (Num 2) n;
               dims = (case getVideoDimensions probed of
                         Inl err \<Rightarrow> \<lparr>Dimensions.width = FULL_CROP_WIDTH,
                                     Dimensions.height = Num 1080\<rparr>
                       | Inr d \<Rightarrow> d)
           in execute (getFfmpegPostProcessArguments str config inputPath outputPath
                         start_ms end_ms cropParameters hasThumbnail
                         (Dimensions.width dims) (Dimensions.height dims))))"

section \<open>Predicates used in the statements\<close>

definition is_even_integer :: "number \<Rightarrow> bool" where
  "is_even_integer a =
     (case a of Num x \<Rightarrow> x = of_int \<lfloor>x\<rfloor> \<and> even \<lfloor>x\<rfloor> | _ \<Rightarrow> False)"

section \<open>A rendering of numbers for concrete runs\<close>

text \<open>
  The digits of an integer, and of a fraction up to twenty places. On integers of
  magnitude below \<open>10^21\<close> and on the values that are not finite this is the text the
  source language produces; the concrete runs below use it on such values only.
\<close>

definition digit_char :: "nat \<Rightarrow> char" where
  "digit_char n = ''0123456789'' ! (n mod 10)"

fun digits_of_nat :: "nat \<Rightarrow> string" where
  "digits_of_nat n =
     (if n < 10 then [digit_char n]
      else digits_of_nat (n div 10) @ [digit_char (n mod 10)])"

declare digits_of_nat.simps [simp del]

fun fraction_digits :: "nat \<Rightarrow> rat \<Rightarrow> string" where
  "fraction_digits 0 r = []"
| "fraction_digits (Suc k) r =
     (if r = 0 then []
      else digit_char (nat \<lfloor>r * 10\<rfloor>) # fraction_digits k (r * 10 - of_int \<lfloor>r * 10\<rfloor>))"

fun decimal :: "number \<Rightarrow> string" where
  "decimal NaN = ''NaN''"
| "decimal PosInfinity = ''Infinity''"
| "decimal NegInfinity = ''-Infinity''"
| "decimal (Num x) =
     (if x < 0 then ''-'' else [])
     @ digits_of_nat (nat \<lfloor>\<bar>x\<bar>\<rfloor>)
     @ (if \<bar>x\<bar> = of_int \<lfloor>\<bar>x\<bar>\<rfloor> then []
        else ''.'' @ fraction_digits 20 (\<bar>x\<bar> - of_int \<lfloor>\<bar>x\<bar>\<rfloor>))"

section \<open>Concrete diagnostic lines\<close>

text \<open>Lines as the analysis run prints them, used to run the definitions.\<close>

definition three_frame_lines :: "string list" where
  "three_frame_lines =
     [''[Parsed_blackframe_1 @ 0x55d4c8a0] frame:10 pblack:100 pts:1000 t:1.0 type:P last_keyframe:0'',
      ''[Parsed_blackframe_1 @ 0x55d4c8a0] frame:11 pblack:100 pts:1100 t:1.1 type:P last_keyframe:0'',
      ''[Parsed_blackframe_1 @ 0x55d4c8a0] frame:30 pblack:100 pts:2000 t:2.0 type:I last_keyframe:30'']"

definition filter_one_strategy :: FrameSearchStrategy where
  "filter_one_strategy =
     \<lparr>name = ''filter-one'', filters = [Num 1], maxSkip = Some (Num 1),
      minSilenceSeconds = None, minFrames = Num 2\<rparr>"

definition no_logo_lines :: "string list" where
  "no_logo_lines =
     [''[silencedetect @ 0x55d4c8a0] silence_end: 10.000 | silence_duration: 0.200'',
      ''[Parsed_blackframe_20 @ 0x55d4c8a0] frame:297 pblack:100 pts:891000 t:9.900 type:P last_keyframe:250'',
      ''[Parsed_blackframe_20 @ 0x55d4c8a0] frame:298 pblack:100 pts:893970 t:9.933 type:P last_keyframe:250'',
      ''[Parsed_blackframe_20 @ 0x55d4c8a0] frame:299 pblack:100 pts:897030 t:9.967 type:P last_keyframe:250'']"

definition short_silence_lines :: "string list" where
  "short_silence_lines =
     [''[silencedetect @ 0x55d4c8a0] silence_end: 10.000 | silence_duration: 0.200'',
      ''[Parsed_blackframe_11 @ 0x55d4c8a0] frame:297 pblack:100 pts:891000 t:9.900 type:P last_keyframe:250'']"

definition unordered_lines :: "string list" where
  "unordered_lines =
     [''[Parsed_blackframe_13 @ 0x55d4c8a0] frame:11 pblack:100 pts:1100 t:1.1 type:P last_keyframe:0'',
      ''[Parsed_blackframe_13 @ 0x55d4c8a0] frame:10 pblack:100 pts:1000 t:1.0 type:P last_keyframe:0'']"

section \<open>Evaluation on concrete inputs\<close>

lemma floor_rat_numeral_div: "\<lfloor>numeral a / numeral b :: rat\<rfloor> = numeral a div numeral b"
  by (metis floor_divide_of_int_eq of_int_numeral)

lemma floor_rat_neg_numeral_div:
  "\<lfloor>- (numeral a / numeral b) :: rat\<rfloor> = - numeral a div numeral b"
  by (metis divide_minus_left floor_divide_of_int_eq of_int_neg_numeral of_int_numeral)

lemma floor_rat_one_div: "\<lfloor>1 / numeral b :: rat\<rfloor> = 1 div numeral b"
  by (metis floor_divide_of_int_eq of_int_1 of_int_numeral)

lemmas number_eval =
  num_sub_def truthy_def strict_eq_def
  floor_rat_numeral_div floor_rat_neg_numeral_div floor_rat_one_div

lemmas parse_eval =
  SILENCEDETECT_FILTER_OUTPUT_PATTERN_def BLACKFRAME_FILTER_OUTPUT_PATTERN_def
  group_def parseFloat_def parseInt_def is_digit_def is_word_def digits_val_def digit_val_def
  number_eval

section \<open>The longest run is what backtracking finds\<close>

lemma drop_takeWhile_length: "drop (length (takeWhile P s)) s = dropWhile P s"
  by (induction s) simp_all

lemma take_takeWhile_length: "take (length (takeWhile P s)) s = takeWhile P s"
  by (induction s) simp_all

lemma shorter_run_fails:
  assumes "stops k ps" and "ps \<noteq> []" and "n < length (takeWhile (in_class k) s)"
  shows "backtrack_here ps (drop n s) = None"
proof -
  obtain c l ps' where ps: "ps = Lit (c # l) # ps'" and c: "\<not> in_class k c"
    using assms(1,2) by (cases "(k, ps)" rule: stops.cases) auto
  have n: "n < length s" using assms(3) length_takeWhile_le [of "in_class k" s] by simp
  have "in_class k (s ! n)"
    using assms(3) by (metis nth_mem set_takeWhileD takeWhile_nth)
  moreover have "drop n s = s ! n # drop (Suc n) s" using n by (simp add: Cons_nth_drop_Suc)
  ultimately show ?thesis using c unfolding ps by auto
qed

lemma first_some_shorter:
  assumes "stops k ps" and "ps \<noteq> []" and "n \<le> length (takeWhile (in_class k) s)"
    and "\<And>m. f m = None \<longleftrightarrow> backtrack_here ps (drop m s) = None"
  shows "first_some f (run_lengths n) =
     (if n = length (takeWhile (in_class k) s) \<and> n \<noteq> 0 then f n else None)"
  using assms(3)
proof (induction n)
  case 0
  show ?case by simp
next
  case (Suc n)
  have below: "first_some f (run_lengths n) = None"
  proof (cases "n = 0")
    case True then show ?thesis by simp
  next
    case False
    have "f n = None"
      using shorter_run_fails [OF assms(1,2), of n s] Suc.prems assms(4) by simp
    then show ?thesis using Suc False by simp
  qed
  show ?case
  proof (cases "Suc n = length (takeWhile (in_class k) s)")
    case True
    then show ?thesis using below by (simp add: True [symmetric] split: option.split)
  next
    case False
    then have "Suc n < length (takeWhile (in_class k) s)" using Suc.prems by simp
    then have "f (Suc n) = None"
      using shorter_run_fails [OF assms(1,2), of "Suc n" s] assms(4) by simp
    then show ?thesis using below False by simp
  qed
qed

lemma backtrack_is_longest_run:
  "unambiguous ps \<Longrightarrow> backtrack_here ps s = match_here ps s"
proof (induction ps arbitrary: s)
  case Nil
  show ?case by simp
next
  case (Cons p ps)
  show ?case
  proof (cases p)
    case (Lit l)
    then show ?thesis using Cons by (simp split: option.split)
  next
    case (One k)
    then show ?thesis using Cons by (simp split: list.split)
  next
    case (Many k)
    let ?n = "length (takeWhile (in_class k) s)"
    have u: "unambiguous ps" and st: "stops k ps" using Cons.prems Many by simp_all
    show ?thesis
    proof (cases "ps = []")
      case True
      then show ?thesis using Many by (cases "takeWhile (in_class k) s") simp_all
    next
      case False
      have "backtrack_here (Many k # ps) s =
          first_some (\<lambda>n. backtrack_here ps (drop n s)) (run_lengths ?n)" by simp
      also have "\<dots> = (if ?n = ?n \<and> ?n \<noteq> 0 then backtrack_here ps (drop ?n s) else None)"
        by (rule first_some_shorter [OF st False]) simp_all
      also have "\<dots> = match_here (Many k # ps) s"
        by (simp add: Cons.IH [OF u] drop_takeWhile_length)
      finally show ?thesis using Many by simp
    qed
  next
    case (Group g k)
    let ?n = "length (takeWhile (in_class k) s)"
    let ?f = "\<lambda>n. case backtrack_here ps (drop n s) of
                        None \<Rightarrow> None
                      | Some gs \<Rightarrow> Some ((g, take n s) # gs)"
    have u: "unambiguous ps" and st: "stops k ps" using Cons.prems Group by simp_all
    show ?thesis
    proof (cases "ps = []")
      case True
      then show ?thesis
        using Group take_takeWhile_length [of "in_class k" s]
        by (cases "takeWhile (in_class k) s") simp_all
    next
      case False
      have "backtrack_here (Group g k # ps) s = first_some ?f (run_lengths ?n)" by simp
      also have "\<dots> = (if ?n = ?n \<and> ?n \<noteq> 0 then ?f ?n else None)"
        by (rule first_some_shorter [OF st False]) (simp_all split: option.split)
      also have "\<dots> = match_here (Group g k # ps) s"
        by (simp add: Cons.IH [OF u] drop_takeWhile_length take_takeWhile_length
            split: option.split)
      finally show ?thesis using Group by simp
    qed
  qed
qed

lemma patterns_unambiguous:
  "unambiguous SILENCEDETECT_FILTER_OUTPUT_PATTERN"
  "unambiguous BLACKFRAME_FILTER_OUTPUT_PATTERN"
  by (simp_all add: SILENCEDETECT_FILTER_OUTPUT_PATTERN_def BLACKFRAME_FILTER_OUTPUT_PATTERN_def
      is_digit_def is_word_def)

section \<open>Silences: the parsed times and their order\<close>

lemma parseFloat_cases: "parseFloat s = NaN \<or> (\<exists>x. 0 \<le> x \<and> parseFloat s = Num x)"
  by (simp add: parseFloat_def Let_def)

lemma round_half_up_mono: "(x::rat) \<le> y \<Longrightarrow> \<lfloor>x + 1 / 2\<rfloor> \<le> \<lfloor>y + 1 / 2\<rfloor>"
  by (rule floor_mono) simp

lemma silence_of_ordered:
  "startTime (silence_of gs) = NaN
   \<or> num_le (startTime (silence_of gs)) (endTime (silence_of gs))"
proof -
  consider (nan_e) "parseFloat (group gs ''endTime'') = NaN"
    | (nan_d) e where "parseFloat (group gs ''endTime'') = Num e"
        "parseFloat (group gs ''duration'') = NaN"
    | (nums) e d where "parseFloat (group gs ''endTime'') = Num e"
        "parseFloat (group gs ''duration'') = Num d" "0 \<le> d"
    using parseFloat_cases [of "group gs ''endTime''"]
      parseFloat_cases [of "group gs ''duration''"]
    by blast
  then show ?thesis
  proof cases
    case nan_e
    then show ?thesis by (simp add: silence_of_def num_sub_def)
  next
    case nan_d
    then show ?thesis by (simp add: silence_of_def num_sub_def)
  next
    case nums
    have "(e - d) * 1000 \<le> e * 1000" using nums(3) by simp
    then have "\<lfloor>(e - d) * 1000 + 1 / 2\<rfloor> \<le> \<lfloor>e * 1000 + 1 / 2\<rfloor>"
      by (rule round_half_up_mono)
    then show ?thesis using nums by (simp add: silence_of_def num_sub_def)
  qed
qed

lemma findSilences_Nil: "findSilences [] = []"
  by (simp add: findSilences_def)

lemma findSilences_Cons:
  "findSilences (line # rest) =
     (case regex_match SILENCEDETECT_FILTER_OUTPUT_PATTERN line of
        None \<Rightarrow> findSilences rest
      | Some gs \<Rightarrow> silence_of gs # findSilences rest)"
  by (simp add: findSilences_def split: option.split)

lemma findSilences_single:
  "regex_match SILENCEDETECT_FILTER_OUTPUT_PATTERN line = Some gs \<Longrightarrow>
     findSilences [line] = [silence_of gs]"
  by (simp add: findSilences_Cons findSilences_Nil)

lemma silence_of_numbers:
  assumes "parseFloat (group gs ''endTime'') = Num e"
    and "parseFloat (group gs ''duration'') = Num d"
    and "0 \<le> d"
  shows "\<exists>s t. silence_of gs = \<lparr>startTime = Num s, endTime = Num t\<rparr> \<and> s \<le> t"
proof -
  have "(e - d) * 1000 \<le> e * 1000" using assms(3) by simp
  then have "(of_int \<lfloor>(e - d) * 1000 + 1 / 2\<rfloor> :: rat) \<le> of_int \<lfloor>e * 1000 + 1 / 2\<rfloor>"
    using round_half_up_mono by (simp only: of_int_le_iff)
  moreover have "silence_of gs =
      \<lparr>startTime = Num (of_int \<lfloor>(e - d) * 1000 + 1 / 2\<rfloor>),
       endTime = Num (of_int \<lfloor>e * 1000 + 1 / 2\<rfloor>)\<rparr>"
    using assms(1,2) by (simp add: silence_of_def num_sub_def)
  ultimately show ?thesis by blast
qed

lemma findSilences_image: "s \<in> set (findSilences ffmpegLines) \<Longrightarrow> \<exists>gs. s = silence_of gs"
  by (auto simp: findSilences_def)

text \<open>
  Claim C7. \<open>findSilences\<close> skips a line that the silence pattern does not match and
  turns a matching line into the silence whose end is the rounded \<open>silence_end\<close> times
  1000 and whose start is the rounded difference of \<open>silence_end\<close> and
  \<open>silence_duration\<close> times 1000. The line with \<open>silence_end: 10.500\<close> and
  \<open>silence_duration: 2.000\<close> gives the silence from 8500 to 10500. A matching line
  whose two fields parse as numbers, the duration not negative, gives a silence of two
  numbers, the start no later than the end. A parsed field is never negative, and among
  all silences found each one whose start is a number starts no later than it ends (the
  start is \<open>NaN\<close> when one of the two fields does not parse).
\<close>

theorem findSilences_rounds_to_milliseconds:
  "findSilences [] = []
   \<and> findSilences (line # rest) =
       (case regex_match SILENCEDETECT_FILTER_OUTPUT_PATTERN line of
          None \<Rightarrow> findSilences rest
        | Some gs \<Rightarrow>
            \<lparr>startTime =
               Math_round (num_mul (num_sub (parseFloat (group gs ''endTime''))
                                            (parseFloat (group gs ''duration''))) (Num 1000)),
             endTime = Math_round (num_mul (parseFloat (group gs ''endTime'')) (Num 1000))\<rparr>
            # findSilences rest)
   \<and> findSilences
         [''[silencedetect @ 0x55d4c8a0] silence_end: 10.500 | silence_duration: 2.000'']
       = [\<lparr>startTime = Num 8500, endTime = Num 10500\<rparr>]
   \<and> (regex_match SILENCEDETECT_FILTER_OUTPUT_PATTERN matching = Some captured
        \<and> parseFloat (group captured ''endTime'') = Num e
        \<and> parseFloat (group captured ''duration'') = Num d \<and> 0 \<le> d
      \<longrightarrow> (\<exists>s t. findSilences [matching] = [\<lparr>startTime = Num s, endTime = Num t\<rparr>]
                 \<and> s \<le> t))
   \<and> (parseFloat text = NaN \<or> (\<exists>d. 0 \<le> d \<and> parseFloat text = Num d))
   \<and> (\<forall>s \<in> set (findSilences ffmpegLines).
         startTime s = NaN \<or> num_le (startTime s) (endTime s))"
proof (intro conjI)
  show "regex_match SILENCEDETECT_FILTER_OUTPUT_PATTERN matching = Some captured
        \<and> parseFloat (group captured ''endTime'') = Num e
        \<and> parseFloat (group captured ''duration'') = Num d \<and> 0 \<le> d
      \<longrightarrow> (\<exists>s t. findSilences [matching] = [\<lparr>startTime = Num s, endTime = Num t\<rparr>]
                 \<and> s \<le> t)"
    using findSilences_single [of matching captured] silence_of_numbers [of captured e d]
    by auto
  show "findSilences [] = []" by (rule findSilences_Nil)
  show "findSilences (line # rest) =
       (case regex_match SILENCEDETECT_FILTER_OUTPUT_PATTERN line of
          None \<Rightarrow> findSilences rest
        | Some gs \<Rightarrow>
            \<lparr>startTime =
               Math_round (num_mul (num_sub (parseFloat (group gs ''endTime''))
                                            (parseFloat (group gs ''duration''))) (Num 1000)),
             endTime = Math_round (num_mul (parseFloat (group gs ''endTime'')) (Num 1000))\<rparr>
            # findSilences rest)"
    by (simp only: findSilences_Cons silence_of_def)
  show "findSilences
         [''[silencedetect @ 0x55d4c8a0] silence_end: 10.500 | silence_duration: 2.000'']
       = [\<lparr>startTime = Num 8500, endTime = Num 10500\<rparr>]"
    by (simp add: findSilences_def silence_of_def parse_eval)
  show "parseFloat text = NaN \<or> (\<exists>d. 0 \<le> d \<and> parseFloat text = Num d)"
    by (rule parseFloat_cases)
  show "\<forall>s \<in> set (findSilences ffmpegLines).
         startTime s = NaN \<or> num_le (startTime s) (endTime s)"
    using findSilences_image silence_of_ordered by blast
qed

theorem findSilences_rounds_to_milliseconds_witness:
  "regex_match SILENCEDETECT_FILTER_OUTPUT_PATTERN
       ''[silencedetect @ 0x7f8a] silence_end: 3.25 | silence_duration: 0.7504''
     = Some [(''endTime'', ''3.25''), (''duration'', ''0.7504'')]
   \<and> parseFloat ''3.25'' = Num (13 / 4) \<and> parseFloat ''0.7504'' = Num (469 / 625)
   \<and> (0::rat) \<le> 469 / 625
   \<and> findSilences
       [''frame=  250 fps= 25 q=-0.0 size=N/A time=00:00:10.00 bitrate=N/A speed= 100x'',
        ''[silencedetect @ 0x7f8a] silence_end: 3.25 | silence_duration: 0.7504'']
     = [\<lparr>startTime = Num 2500, endTime = Num 3250\<rparr>]
   \<and> num_le (Num 2500) (Num 3250)
   \<and> (\<exists>s t. findSilences
                [''[silencedetect @ 0x7f8a] silence_end: 3.25 | silence_duration: 0.7504'']
              = [\<lparr>startTime = Num s, endTime = Num t\<rparr>] \<and> s \<le> t)"
proof -
  let ?line = "''[silencedetect @ 0x7f8a] silence_end: 3.25 | silence_duration: 0.7504''"
  let ?captured = "[(''endTime'', ''3.25''), (''duration'', ''0.7504'')]"
  let ?lines =
    "[''frame=  250 fps= 25 q=-0.0 size=N/A time=00:00:10.00 bitrate=N/A speed= 100x'',
      ?line]"
  note inst = findSilences_rounds_to_milliseconds
    [of "[]" "[]" ?line ?captured "13 / 4" "469 / 625" "[]" ?lines]
  have matched: "regex_match SILENCEDETECT_FILTER_OUTPUT_PATTERN ?line = Some ?captured"
    by (simp add: parse_eval)
  have parsed: "parseFloat (group ?captured ''endTime'') = Num (13 / 4)"
    "parseFloat (group ?captured ''duration'') = Num (469 / 625)"
    "parseFloat ''3.25'' = Num (13 / 4)" "parseFloat ''0.7504'' = Num (469 / 625)"
    by (simp_all add: parse_eval)
  have nonneg: "(0::rat) \<le> 469 / 625" by simp
  have run: "findSilences ?lines = [\<lparr>startTime = Num 2500, endTime = Num 3250\<rparr>]"
    by (simp add: findSilences_def silence_of_def parse_eval)
  have "\<forall>s \<in> set (findSilences ?lines).
          startTime s = NaN \<or> num_le (startTime s) (endTime s)"
    using inst by (elim conjE)
  then have ordered: "num_le (Num 2500) (Num 3250)"
    unfolding run by simp
  have single: "\<exists>s t. findSilences [?line] = [\<lparr>startTime = Num s, endTime = Num t\<rparr>] \<and> s \<le> t"
    using inst matched parsed(1,2) nonneg by blast
  show ?thesis
    using matched parsed(3,4) nonneg run ordered single by (intro conjI)
qed

section \<open>The scaled width and the overlay offset\<close>

lemma is_even_integer_of_int: "is_even_integer (Num (of_int n)) = even n"
  by (simp add: is_even_integer_def)

text \<open>
  Claim C9. For positive integer widths the scaled width is the rounded quotient of the
  squared target width by the crop width and by 2, times 2, and it is an even integer; the
  overlay offset is the rounded half of the difference of crop width and target width.
  For the single observation of width 1920 at time 0 and the target width 1920 the offset
  written into the filter is 0 and the scaled width is 1920.
\<close>

theorem scale_width_even_and_offset_rounded:
  assumes "0 < cropWidth" and "0 < targetWidth"
  shows
    "makeCalculateScaleWidth (Num (of_int targetWidth)) (Num (of_int cropWidth))
       = Num (of_int (\<lfloor>of_int (targetWidth * targetWidth) / of_int cropWidth / 2 + 1 / 2 :: rat\<rfloor> * 2))
     \<and> is_even_integer
         (makeCalculateScaleWidth (Num (of_int targetWidth)) (Num (of_int cropWidth)))
     \<and> makeCalculateOverlayPosition (Num (of_int targetWidth)) (Num (of_int cropWidth))
       = Num (of_int \<lfloor>(of_int cropWidth - of_int targetWidth) / 2 + 1 / 2 :: rat\<rfloor>)
     \<and> generateTimeSequence str (makeCalculateOverlayPosition (Num 1920))
         [\<lparr>time = Num 0, width = Num 1920\<rparr>] (Num 1920) = str (Num 0)
     \<and> generateTimeSequence str (makeCalculateScaleWidth (Num 1920))
         [\<lparr>time = Num 0, width = Num 1920\<rparr>] (Num 1920) = str (Num 1920)"
proof (intro conjI)
  have nz: "(of_int cropWidth :: rat) \<noteq> 0" using assms(1) by simp
  show scale: "makeCalculateScaleWidth (Num (of_int targetWidth)) (Num (of_int cropWidth))
       = Num (of_int (\<lfloor>of_int (targetWidth * targetWidth) / of_int cropWidth / 2 + 1 / 2 :: rat\<rfloor> * 2))"
    using nz by (simp add: makeCalculateScaleWidth_def)
  show "is_even_integer
         (makeCalculateScaleWidth (Num (of_int targetWidth)) (Num (of_int cropWidth)))"
    unfolding scale by (subst is_even_integer_of_int) simp
  show "makeCalculateOverlayPosition (Num (of_int targetWidth)) (Num (of_int cropWidth))
       = Num (of_int \<lfloor>(of_int cropWidth - of_int targetWidth) / 2 + 1 / 2 :: rat\<rfloor>)"
    by (simp add: makeCalculateOverlayPosition_def num_sub_def)
  show "generateTimeSequence str (makeCalculateOverlayPosition (Num 1920))
         [\<lparr>time = Num 0, width = Num 1920\<rparr>] (Num 1920) = str (Num 0)"
    by (subst generateTimeSequence.simps)
       (simp add: makeCalculateOverlayPosition_def number_eval)
  show "generateTimeSequence str (makeCalculateScaleWidth (Num 1920))
         [\<lparr>time = Num 0, width = Num 1920\<rparr>] (Num 1920) = str (Num 1920)"
    by (subst generateTimeSequence.simps)
       (simp add: makeCalculateScaleWidth_def number_eval)
qed

theorem scale_width_even_and_offset_rounded_witness:
  "makeCalculateScaleWidth (Num 1920) (Num 1440) = Num 2560
   \<and> is_even_integer (makeCalculateScaleWidth (Num 1920) (Num 1440))
   \<and> makeCalculateOverlayPosition (Num 1920) (Num 1440) = Num (- 240)"
proof -
  have pos: "(0::int) < 1440" "(0::int) < 1920" by simp_all
  from scale_width_even_and_offset_rounded [OF pos, of decimal]
  show ?thesis by (simp add: number_eval is_even_integer_def)
qed

section \<open>Runs of frame events\<close>

lemma group_frames_Nil: "group_frames strategy [] = []"
  by (simp add: group_frames_def)

lemma group_frames_snoc:
  "group_frames strategy (frames @ [frame]) = group_step strategy (group_frames strategy frames) frame"
  by (simp add: group_frames_def)

lemma group_frames_single: "group_frames strategy [frame] = [[frame]]"
  by (simp add: group_frames_def group_step_def)

lemma concat_butlast_last: "gs \<noteq> [] \<Longrightarrow> concat (butlast gs) @ last gs = concat gs"
  by (induction gs) auto

lemma group_frames_partition:
  "concat (group_frames strategy frames) = frames \<and> [] \<notin> set (group_frames strategy frames)
   \<and> (frames \<noteq> [] \<longrightarrow> group_frames strategy frames \<noteq> [])"
proof (induction frames rule: rev_induct)
  case Nil
  show ?case by (simp add: group_frames_Nil)
next
  case (snoc frame frames)
  let ?G = "group_frames strategy frames"
  show ?case
  proof (cases "?G = []")
    case True
    with snoc have "frames = []" by auto
    then show ?thesis by (simp add: group_frames_single)
  next
    case False
    then have lastG: "last ?G \<noteq> []" using snoc last_in_set by metis
    have sub: "set (butlast ?G) \<subseteq> set ?G" by (auto dest: in_set_butlastD)
    have cat: "concat (butlast ?G) @ last ?G = frames"
      using concat_butlast_last [OF False] snoc by simp
    show ?thesis
    proof (cases "extends_run strategy (last (last ?G)) frame")
      case True
      have "group_frames strategy (frames @ [frame]) = butlast ?G @ [last ?G @ [frame]]"
        using False lastG True by (simp add: group_frames_snoc group_step_def)
      then show ?thesis using cat sub snoc by auto
    next
      case no: False
      have "group_frames strategy (frames @ [frame]) = ?G @ [[frame]]"
        using False lastG no by (simp add: group_frames_snoc group_step_def)
      then show ?thesis using snoc by auto
    qed
  qed
qed

lemma group_frames_last:
  assumes "frames \<noteq> []"
  shows "last (group_frames strategy frames) \<noteq> []"
    and "last (last (group_frames strategy frames)) = last frames"
proof -
  let ?G = "group_frames strategy frames"
  have ne: "?G \<noteq> []" using assms group_frames_partition by blast
  then show l: "last ?G \<noteq> []" using group_frames_partition last_in_set by metis
  have "concat (butlast ?G) @ last ?G = frames"
    using concat_butlast_last [OF ne] group_frames_partition by simp
  then have "last frames = last (concat (butlast ?G) @ last ?G)" by simp
  also have "\<dots> = last (last ?G)" using l by simp
  finally show "last (last ?G) = last frames" by simp
qed

lemma group_frames_step:
  "group_frames strategy (frames @ [frame]) =
     (if frames = [] then [[frame]]
      else if extends_run strategy (last frames) frame
        then butlast (group_frames strategy frames)
             @ [last (group_frames strategy frames) @ [frame]]
      else group_frames strategy frames @ [[frame]])"
proof (cases "frames = []")
  case True
  then show ?thesis by (simp add: group_frames_single)
next
  case False
  have "group_frames strategy frames \<noteq> []" using False group_frames_partition by blast
  then show ?thesis
    using False group_frames_last [OF False, of strategy]
    by (simp add: group_frames_snoc group_step_def)
qed

lemma feature_of_nonempty:
  "run \<noteq> [] \<Longrightarrow>
     feature_of run =
       Inr \<lparr>start = BlackframeOutput.time (hd run), end' = BlackframeOutput.time (last run),
            firstFrame = frameNum (hd run), lastFrame = frameNum (last run)\<rparr>"
  by (cases run) simp_all

lemma collect_map_Inr:
  "(\<And>x. x \<in> set xs \<Longrightarrow> f x = Inr (h x)) \<Longrightarrow> collect (map f xs) = Inr (map h xs)"
  by (induction xs) simp_all

lemma findBlackframeGroups_features:
  "findBlackframeGroups ffmpegLines strategy candidateWindows =
     Inr (map (\<lambda>run. \<lparr>start = BlackframeOutput.time (hd run),
                       end' = BlackframeOutput.time (last run),
                       firstFrame = frameNum (hd run), lastFrame = frameNum (last run)\<rparr>)
            (filter (\<lambda>run. num_le (minFrames strategy) (Num (of_nat (length run))))
               (group_frames strategy
                  (frames_for_grouping ffmpegLines strategy candidateWindows))))"
proof -
  let ?runs = "group_frames strategy (frames_for_grouping ffmpegLines strategy candidateWindows)"
  have "\<And>run. run \<in> set (filter (long_enough strategy) ?runs) \<Longrightarrow> run \<noteq> []"
    using group_frames_partition [of strategy] by auto
  then have "collect (map feature_of (filter (long_enough strategy) ?runs)) =
     Inr (map (\<lambda>run. \<lparr>start = BlackframeOutput.time (hd run),
                       end' = BlackframeOutput.time (last run),
                       firstFrame = frameNum (hd run), lastFrame = frameNum (last run)\<rparr>)
            (filter (long_enough strategy) ?runs))"
    by (intro collect_map_Inr feature_of_nonempty)
  then show ?thesis
    by (simp add: findBlackframeGroups_def long_enough_def [abs_def])
qed

lemma findBlackframeGroups_total:
  "\<exists>candidates. findBlackframeGroups ffmpegLines strategy candidateWindows = Inr candidates"
  using findBlackframeGroups_features by blast

lemma three_frames_parsed:
  "blackframes three_frame_lines =
     [\<lparr>filterNum = Num 1, frameNum = Num 10, time = Num 1000\<rparr>,
      \<lparr>filterNum = Num 1, frameNum = Num 11, time = Num 1100\<rparr>,
      \<lparr>filterNum = Num 1, frameNum = Num 30, time = Num 2000\<rparr>]"
  by (simp add: three_frame_lines_def blackframes_def blackframe_of_def parse_eval)

lemma three_frames_for_grouping:
  "frames_for_grouping three_frame_lines filter_one_strategy [] =
     [\<lparr>filterNum = Num 1, frameNum = Num 10, time = Num 1000\<rparr>,
      \<lparr>filterNum = Num 1, frameNum = Num 11, time = Num 1100\<rparr>,
      \<lparr>filterNum = Num 1, frameNum = Num 30, time = Num 2000\<rparr>]"
  by (simp add: frames_for_grouping_def three_frames_parsed filter_one_strategy_def
      silence_test_def tree_search_def sort_with_def getProp_def number_eval)

text \<open>
  Claim C4. The grouping is greedy: the first event opens a run, and every later event
  joins the last run exactly when it extends the previous event (same filter, frame gap
  at most \<open>maxSkip\<close>, 1 when unset), and opens a new run otherwise. The runs are never
  empty and, one after the other, give back the events. The result keeps the runs whose
  length reaches \<open>minFrames\<close>, each as the feature of its first and last event. Events of
  filter 1 at frames 10, 11 and 30 with \<open>maxSkip\<close> 1 give the runs of frames 10, 11 and
  of frame 30.
\<close>

theorem group_frames_greedy:
  "group_frames strategy [] = []
   \<and> group_frames strategy (frames @ [frame]) =
       (if frames = [] then [[frame]]
        else if num_le (num_sub (frameNum frame) (frameNum (last frames)))
                  (case maxSkip strategy of None \<Rightarrow> Num 1 | Some m \<Rightarrow> m)
                \<and> strict_eq (filterNum frame) (filterNum (last frames))
          then butlast (group_frames strategy frames)
               @ [last (group_frames strategy frames) @ [frame]]
        else group_frames strategy frames @ [[frame]])
   \<and> (frames \<noteq> [] \<longrightarrow> last (last (group_frames strategy frames)) = last frames)
   \<and> concat (group_frames strategy frames) = frames
   \<and> [] \<notin> set (group_frames strategy frames)
   \<and> findBlackframeGroups ffmpegLines strategy candidateWindows =
       Inr (map (\<lambda>run. \<lparr>start = BlackframeOutput.time (hd run),
                         end' = BlackframeOutput.time (last run),
                         firstFrame = frameNum (hd run), lastFrame = frameNum (last run)\<rparr>)
              (filter (\<lambda>run. num_le (minFrames strategy) (Num (of_nat (length run))))
                 (group_frames strategy
                    (frames_for_grouping ffmpegLines strategy candidateWindows))))
   \<and> group_frames (strategy\<lparr>maxSkip := Some (Num 1)\<rparr>)
         [\<lparr>filterNum = Num 1, frameNum = Num 10, time = Num 1000\<rparr>,
          \<lparr>filterNum = Num 1, frameNum = Num 11, time = Num 1100\<rparr>,
          \<lparr>filterNum = Num 1, frameNum = Num 30, time = Num 2000\<rparr>]
       = [[\<lparr>filterNum = Num 1, frameNum = Num 10, time = Num 1000\<rparr>,
           \<lparr>filterNum = Num 1, frameNum = Num 11, time = Num 1100\<rparr>],
          [\<lparr>filterNum = Num 1, frameNum = Num 30, time = Num 2000\<rparr>]]"
proof (intro conjI)
  show "group_frames strategy [] = []" by (rule group_frames_Nil)
  show "group_frames strategy (frames @ [frame]) =
       (if frames = [] then [[frame]]
        else if num_le (num_sub (frameNum frame) (frameNum (last frames)))
                  (case maxSkip strategy of None \<Rightarrow> Num 1 | Some m \<Rightarrow> m)
                \<and> strict_eq (filterNum frame) (filterNum (last frames))
          then butlast (group_frames strategy frames)
               @ [last (group_frames strategy frames) @ [frame]]
        else group_frames strategy frames @ [[frame]])"
    using group_frames_step [of strategy frames frame] by (simp only: extends_run_def)
  show "frames \<noteq> [] \<longrightarrow> last (last (group_frames strategy frames)) = last frames"
    using group_frames_last(2) by blast
  show "concat (group_frames strategy frames) = frames"
    using group_frames_partition by blast
  show "[] \<notin> set (group_frames strategy frames)"
    using group_frames_partition by blast
  show "findBlackframeGroups ffmpegLines strategy candidateWindows =
       Inr (map (\<lambda>run. \<lparr>start = BlackframeOutput.time (hd run),
                         end' = BlackframeOutput.time (last run),
                         firstFrame = frameNum (hd run), lastFrame = frameNum (last run)\<rparr>)
              (filter (\<lambda>run. num_le (minFrames strategy) (Num (of_nat (length run))))
                 (group_frames strategy
                    (frames_for_grouping ffmpegLines strategy candidateWindows))))"
    by (rule findBlackframeGroups_features)
  show "group_frames (strategy\<lparr>maxSkip := Some (Num 1)\<rparr>)
         [\<lparr>filterNum = Num 1, frameNum = Num 10, time = Num 1000\<rparr>,
          \<lparr>filterNum = Num 1, frameNum = Num 11, time = Num 1100\<rparr>,
          \<lparr>filterNum = Num 1, frameNum = Num 30, time = Num 2000\<rparr>]
       = [[\<lparr>filterNum = Num 1, frameNum = Num 10, time = Num 1000\<rparr>,
           \<lparr>filterNum = Num 1, frameNum = Num 11, time = Num 1100\<rparr>],
          [\<lparr>filterNum = Num 1, frameNum = Num 30, time = Num 2000\<rparr>]]"
    by (simp add: group_frames_def group_step_def extends_run_def number_eval)
qed

theorem group_frames_greedy_witness:
  "[\<lparr>filterNum = Num 1, frameNum = Num 10, time = Num 1000\<rparr>,
    \<lparr>filterNum = Num 1, frameNum = Num 11, time = Num 1100\<rparr>,
    \<lparr>filterNum = Num 1, frameNum = Num 30, time = Num 2000\<rparr>] \<noteq> []
   \<and> last (last (group_frames filter_one_strategy
         [\<lparr>filterNum = Num 1, frameNum = Num 10, time = Num 1000\<rparr>,
          \<lparr>filterNum = Num 1, frameNum = Num 11, time = Num 1100\<rparr>,
          \<lparr>filterNum = Num 1, frameNum = Num 30, time = Num 2000\<rparr>]))
       = \<lparr>filterNum = Num 1, frameNum = Num 30, time = Num 2000\<rparr>
   \<and> findBlackframeGroups three_frame_lines filter_one_strategy [] =
       Inr [\<lparr>start = Num 1000, end' = Num 1100, firstFrame = Num 10, lastFrame = Num 11\<rparr>]"
proof -
  let ?frames =
    "[\<lparr>filterNum = Num 1, frameNum = Num 10, time = Num 1000\<rparr>,
      \<lparr>filterNum = Num 1, frameNum = Num 11, time = Num 1100\<rparr>,
      \<lparr>filterNum = Num 1, frameNum = Num 30, time = Num 2000\<rparr>]"
  note inst = group_frames_greedy
    [of filter_one_strategy ?frames "last ?frames" three_frame_lines "[]"]
  have ne: "?frames \<noteq> []" by simp
  have lastrun: "last (last (group_frames filter_one_strategy ?frames)) = last ?frames"
    using inst ne by blast
  have runs: "group_frames filter_one_strategy ?frames
       = [[\<lparr>filterNum = Num 1, frameNum = Num 10, time = Num 1000\<rparr>,
           \<lparr>filterNum = Num 1, frameNum = Num 11, time = Num 1100\<rparr>],
          [\<lparr>filterNum = Num 1, frameNum = Num 30, time = Num 2000\<rparr>]]"
    by (simp add: group_frames_def group_step_def extends_run_def filter_one_strategy_def
        number_eval)
  have "findBlackframeGroups three_frame_lines filter_one_strategy [] =
       Inr (map (\<lambda>run. \<lparr>start = BlackframeOutput.time (hd run),
                         end' = BlackframeOutput.time (last run),
                         firstFrame = frameNum (hd run), lastFrame = frameNum (last run)\<rparr>)
              (filter (\<lambda>run. num_le (minFrames filter_one_strategy) (Num (of_nat (length run))))
                 (group_frames filter_one_strategy
                    (frames_for_grouping three_frame_lines filter_one_strategy []))))"
    using inst by blast
  then have found: "findBlackframeGroups three_frame_lines filter_one_strategy [] =
       Inr [\<lparr>start = Num 1000, end' = Num 1100, firstFrame = Num 10, lastFrame = Num 11\<rparr>]"
    unfolding three_frames_for_grouping runs by (simp add: filter_one_strategy_def)
  show ?thesis using ne lastrun found by simp
qed

section \<open>The cascade of strategies\<close>

lemma num_le_not_lt: "num_le a b \<Longrightarrow> \<not> num_lt b a"
  by (cases a; cases b) auto

lemma findSilences_insertable:
  assumes "s \<in> set (findSilences ffmpegLines)"
  shows "\<not> num_lt (endTime s) (startTime s)"
proof -
  obtain gs where s: "s = silence_of gs" using assms findSilences_image by blast
  from silence_of_ordered [of gs] show ?thesis
  proof
    assume "startTime (silence_of gs) = NaN"
    then show ?thesis unfolding s by (cases "endTime (silence_of gs)") simp_all
  next
    assume "num_le (startTime (silence_of gs)) (endTime (silence_of gs))"
    then show ?thesis unfolding s by (rule num_le_not_lt)
  qed
qed

lemma insert_silences_succeeds:
  "(\<And>s. s \<in> set silences \<Longrightarrow> \<not> num_lt (endTime s) (startTime s)) \<Longrightarrow>
     \<exists>tree'. insert_silences tree silences = Inr tree'"
  by (induction silences arbitrary: tree) (simp_all add: tree_insert_def)

lemma search_strategies_none:
  "(\<And>p. p \<in> set strategies \<Longrightarrow> findBlackframeGroups outputLines p tree = Inr []) \<Longrightarrow>
     search_strategies outputLines tree strategies logged =
       Inr (logged @ concat (map (\<lambda>p. [Searching (name p), FoundCandidates []]) strategies), [])"
  by (induction strategies arbitrary: logged) simp_all

lemma search_strategies_first:
  assumes "\<And>p. p \<in> set pre \<Longrightarrow> findBlackframeGroups outputLines p tree = Inr []"
    and "findBlackframeGroups outputLines s tree = Inr candidates"
    and "candidates \<noteq> []"
  shows "search_strategies outputLines tree (pre @ s # post) logged =
       Inr (logged @ concat (map (\<lambda>p. [Searching (name p), FoundCandidates []]) pre)
              @ [Searching (name s), FoundCandidates candidates], candidates)"
  using assms by (induction pre arbitrary: logged) simp_all

lemma detect_no_silences:
  "findSilences outputLines = [] \<Longrightarrow>
     detectPotentialBoundaries (Inr outputLines) = Inr ([FoundSilences [], NoSilences], [])"
  by (simp add: detectPotentialBoundaries_def)

lemma findSilences_tree:
  "\<exists>tree. insert_silences [] (findSilences outputLines) = Inr tree"
  by (rule insert_silences_succeeds) (rule findSilences_insertable)

lemma detect_with_silences:
  assumes "findSilences outputLines \<noteq> []"
    and "insert_silences [] (findSilences outputLines) = Inr tree"
  shows "detectPotentialBoundaries (Inr outputLines) =
     search_strategies outputLines tree BOUNDARY_STRATEGIES
       [FoundSilences (findSilences outputLines)]"
  using assms by (simp add: detectPotentialBoundaries_def)

text \<open>
  Claim C2. With no parsed silence \<open>detectPotentialBoundaries\<close> returns no candidates and
  its log names no strategy. With a silence, the tree of silences is built without
  failure, and the seven strategies run in the order \<open>black-logo\<close>, \<open>white-logo\<close>,
  \<open>white-borders-logo\<close>, \<open>black-logo-ai-subtitles\<close>, \<open>black-no-logo-ai-subtitles\<close>,
  \<open>no-logo\<close>, \<open>newsline\<close>: when the strategies before one found nothing and that one
  finds candidates, these are the result, and the log names the strategies up to that one
  and none after it; when no strategy finds candidates the result is empty and the log
  names all seven. Every strategy yields a list of candidates, so one of the cases holds.
\<close>

theorem detectPotentialBoundaries_first_strategy_wins:
  "(findSilences outputLines = [] \<longrightarrow>
      detectPotentialBoundaries (Inr outputLines) = Inr ([FoundSilences [], NoSilences], []))
   \<and> (findSilences outputLines \<noteq> [] \<longrightarrow>
        (\<exists>tree. insert_silences [] (findSilences outputLines) = Inr tree
           \<and> (\<forall>pre s post candidates.
                 BOUNDARY_STRATEGIES = pre @ s # post
                 \<and> (\<forall>p \<in> set pre. findBlackframeGroups outputLines p tree = Inr [])
                 \<and> findBlackframeGroups outputLines s tree = Inr candidates
                 \<and> candidates \<noteq> []
                 \<longrightarrow> detectPotentialBoundaries (Inr outputLines) =
                       Inr ([FoundSilences (findSilences outputLines)]
                            @ concat (map (\<lambda>p. [Searching (name p), FoundCandidates []]) pre)
                            @ [Searching (name s), FoundCandidates candidates], candidates))
           \<and> ((\<forall>p \<in> set BOUNDARY_STRATEGIES.
                   findBlackframeGroups outputLines p tree = Inr [])
                 \<longrightarrow> detectPotentialBoundaries (Inr outputLines) =
                       Inr ([FoundSilences (findSilences outputLines)]
                            @ concat (map (\<lambda>p. [Searching (name p), FoundCandidates []])
                                        BOUNDARY_STRATEGIES), []))))
   \<and> (\<exists>candidates. findBlackframeGroups outputLines strategy candidateWindows = Inr candidates)
   \<and> map name BOUNDARY_STRATEGIES =
       [''black-logo'', ''white-logo'', ''white-borders-logo'', ''black-logo-ai-subtitles'',
        ''black-no-logo-ai-subtitles'', ''no-logo'', ''newsline'']"
proof (intro conjI impI)
  assume "findSilences outputLines = []"
  then show "detectPotentialBoundaries (Inr outputLines) = Inr ([FoundSilences [], NoSilences], [])"
    by (rule detect_no_silences)
next
  assume ne: "findSilences outputLines \<noteq> []"
  obtain tree where tree: "insert_silences [] (findSilences outputLines) = Inr tree"
    using findSilences_tree by blast
  have first: "\<forall>pre s post candidates.
                 BOUNDARY_STRATEGIES = pre @ s # post
                 \<and> (\<forall>p \<in> set pre. findBlackframeGroups outputLines p tree = Inr [])
                 \<and> findBlackframeGroups outputLines s tree = Inr candidates
                 \<and> candidates \<noteq> []
                 \<longrightarrow> detectPotentialBoundaries (Inr outputLines) =
                       Inr ([FoundSilences (findSilences outputLines)]
                            @ concat (map (\<lambda>p. [Searching (name p), FoundCandidates []]) pre)
                            @ [Searching (name s), FoundCandidates candidates], candidates)"
  proof (intro allI impI, elim conjE)
    fix pre s post candidates
    assume split: "BOUNDARY_STRATEGIES = pre @ s # post"
      and pre: "\<forall>p \<in> set pre. findBlackframeGroups outputLines p tree = Inr []"
      and s: "findBlackframeGroups outputLines s tree = Inr candidates"
      and c: "candidates \<noteq> []"
    show "detectPotentialBoundaries (Inr outputLines) =
                       Inr ([FoundSilences (findSilences outputLines)]
                            @ concat (map (\<lambda>p. [Searching (name p), FoundCandidates []]) pre)
                            @ [Searching (name s), FoundCandidates candidates], candidates)"
      unfolding detect_with_silences [OF ne tree] split
      using pre s c by (intro search_strategies_first) auto
  qed
  have none: "(\<forall>p \<in> set BOUNDARY_STRATEGIES.
                   findBlackframeGroups outputLines p tree = Inr [])
                 \<longrightarrow> detectPotentialBoundaries (Inr outputLines) =
                       Inr ([FoundSilences (findSilences outputLines)]
                            @ concat (map (\<lambda>p. [Searching (name p), FoundCandidates []])
                                        BOUNDARY_STRATEGIES), [])"
    unfolding detect_with_silences [OF ne tree]
    by (intro impI search_strategies_none) auto
  show "\<exists>tree. insert_silences [] (findSilences outputLines) = Inr tree
           \<and> (\<forall>pre s post candidates.
                 BOUNDARY_STRATEGIES = pre @ s # post
                 \<and> (\<forall>p \<in> set pre. findBlackframeGroups outputLines p tree = Inr [])
                 \<and> findBlackframeGroups outputLines s tree = Inr candidates
                 \<and> candidates \<noteq> []
                 \<longrightarrow> detectPotentialBoundaries (Inr outputLines) =
                       Inr ([FoundSilences (findSilences outputLines)]
                            @ concat (map (\<lambda>p. [Searching (name p), FoundCandidates []]) pre)
                            @ [Searching (name s), FoundCandidates candidates], candidates))
           \<and> ((\<forall>p \<in> set BOUNDARY_STRATEGIES.
                   findBlackframeGroups outputLines p tree = Inr [])
                 \<longrightarrow> detectPotentialBoundaries (Inr outputLines) =
                       Inr ([FoundSilences (findSilences outputLines)]
                            @ concat (map (\<lambda>p. [Searching (name p), FoundCandidates []])
                                        BOUNDARY_STRATEGIES), []))"
    using tree first none by blast
next
  show "\<exists>candidates. findBlackframeGroups outputLines strategy candidateWindows = Inr candidates"
    by (rule findBlackframeGroups_total)
next
  show "map name BOUNDARY_STRATEGIES =
       [''black-logo'', ''white-logo'', ''white-borders-logo'', ''black-logo-ai-subtitles'',
        ''black-no-logo-ai-subtitles'', ''no-logo'', ''newsline'']"
    by (simp add: BOUNDARY_STRATEGIES_def)
qed

lemma no_logo_silences:
  "findSilences no_logo_lines = [\<lparr>startTime = Num 9800, endTime = Num 10000\<rparr>]"
  by (simp add: no_logo_lines_def findSilences_def silence_of_def parse_eval)

lemma no_logo_blackframes:
  "blackframes no_logo_lines =
     [\<lparr>filterNum = Num 20, frameNum = Num 297, time = Num 9900\<rparr>,
      \<lparr>filterNum = Num 20, frameNum = Num 298, time = Num 9933\<rparr>,
      \<lparr>filterNum = Num 20, frameNum = Num 299, time = Num 9967\<rparr>]"
  by (simp add: no_logo_lines_def blackframes_def blackframe_of_def parse_eval)

lemma no_logo_other_filters:
  "Num 20 \<notin> set (filters strategy) \<Longrightarrow>
     findBlackframeGroups no_logo_lines strategy tree = Inr []"
  by (simp add: findBlackframeGroups_def frames_for_grouping_def no_logo_blackframes
      sort_with_def group_frames_def)

lemma no_logo_found:
  "findBlackframeGroups no_logo_lines
     \<lparr>name = ''no-logo'', filters = [Num 20], maxSkip = None,
      minSilenceSeconds = Some (Num (1 / 10)), minFrames = Num 3\<rparr>
     [(Num 9800, Num 10000, Num 200)]
   = Inr [\<lparr>start = Num 9900, end' = Num 9967, firstFrame = Num 297, lastFrame = Num 299\<rparr>]"
  by (simp add: findBlackframeGroups_def frames_for_grouping_def no_logo_blackframes
      silence_test_def tree_search_def sort_with_def getProp_def group_frames_def
      group_step_def extends_run_def long_enough_def number_eval)

theorem detectPotentialBoundaries_first_strategy_wins_witness:
  "findSilences no_logo_lines \<noteq> []
   \<and> detectPotentialBoundaries (Inr no_logo_lines) =
       Inr ([FoundSilences [\<lparr>startTime = Num 9800, endTime = Num 10000\<rparr>],
             Searching ''black-logo'', FoundCandidates [],
             Searching ''white-logo'', FoundCandidates [],
             Searching ''white-borders-logo'', FoundCandidates [],
             Searching ''black-logo-ai-subtitles'', FoundCandidates [],
             Searching ''black-no-logo-ai-subtitles'', FoundCandidates [],
             Searching ''no-logo'',
             FoundCandidates
               [\<lparr>start = Num 9900, end' = Num 9967, firstFrame = Num 297,
                 lastFrame = Num 299\<rparr>]],
            [\<lparr>start = Num 9900, end' = Num 9967, firstFrame = Num 297, lastFrame = Num 299\<rparr>])"
proof -
  let ?pre = "take 5 BOUNDARY_STRATEGIES"
  let ?s = "BOUNDARY_STRATEGIES ! 5"
  let ?post = "drop 6 BOUNDARY_STRATEGIES"
  let ?found = "[\<lparr>start = Num 9900, end' = Num 9967, firstFrame = Num 297,
                 lastFrame = Num 299\<rparr>]"
  have ne: "findSilences no_logo_lines \<noteq> []" by (simp add: no_logo_silences)
  have built: "insert_silences [] (findSilences no_logo_lines)
      = Inr [(Num 9800, Num 10000, Num 200)]"
    by (simp add: no_logo_silences tree_insert_def number_eval)
  from detectPotentialBoundaries_first_strategy_wins [of no_logo_lines] ne built
  have cascade: "\<forall>pre s post candidates.
       BOUNDARY_STRATEGIES = pre @ s # post
       \<and> (\<forall>p \<in> set pre.
             findBlackframeGroups no_logo_lines p [(Num 9800, Num 10000, Num 200)] = Inr [])
       \<and> findBlackframeGroups no_logo_lines s [(Num 9800, Num 10000, Num 200)] = Inr candidates
       \<and> candidates \<noteq> []
       \<longrightarrow> detectPotentialBoundaries (Inr no_logo_lines) =
             Inr ([FoundSilences (findSilences no_logo_lines)]
                  @ concat (map (\<lambda>p. [Searching (name p), FoundCandidates []]) pre)
                  @ [Searching (name s), FoundCandidates candidates], candidates)"
    by auto
  have split: "BOUNDARY_STRATEGIES = ?pre @ ?s # ?post"
    by (simp add: BOUNDARY_STRATEGIES_def)
  have before: "\<forall>p \<in> set ?pre.
      findBlackframeGroups no_logo_lines p [(Num 9800, Num 10000, Num 200)] = Inr []"
    by (simp add: BOUNDARY_STRATEGIES_def no_logo_other_filters)
  have hit: "findBlackframeGroups no_logo_lines ?s [(Num 9800, Num 10000, Num 200)] = Inr ?found"
    by (simp add: BOUNDARY_STRATEGIES_def no_logo_found)
  have "detectPotentialBoundaries (Inr no_logo_lines) =
             Inr ([FoundSilences (findSilences no_logo_lines)]
                  @ concat (map (\<lambda>p. [Searching (name p), FoundCandidates []]) ?pre)
                  @ [Searching (name ?s), FoundCandidates ?found], ?found)"
    using cascade split before hit by blast
  then show ?thesis
    using ne by (simp add: no_logo_silences BOUNDARY_STRATEGIES_def)
qed

lemma short_silence_found:
  "findSilences short_silence_lines = [\<lparr>startTime = Num 9800, endTime = Num 10000\<rparr>]"
  by (simp add: short_silence_lines_def findSilences_def silence_of_def parse_eval)

lemma short_silence_blackframes:
  "blackframes short_silence_lines =
     [\<lparr>filterNum = Num 11, frameNum = Num 297, time = Num 9900\<rparr>]"
  by (simp add: short_silence_lines_def blackframes_def blackframe_of_def parse_eval)

section \<open>The silence test on a short silence\<close>

text \<open>
  Claim C1. The claim asks that an event be kept exactly when the silence around it lasts
  at least \<open>minSilenceSeconds\<close> times 1000 milliseconds. This is the source run on a line
  of filter 11 at 9.9 seconds inside a silence of 200 milliseconds, under the strategy
  \<open>black-logo\<close> with \<open>minSilenceSeconds\<close> 1.5: the search returns the duration 200,
  which is below 1500, and the event is kept.
\<close>

theorem silence_test_keeps_event_in_short_silence:
  "insert_silences [] (findSilences short_silence_lines) = Inr [(Num 9800, Num 10000, Num 200)]
   \<and> tree_search [(Num 9800, Num 10000, Num 200)] (Num 9900) (Num 9900) = [Num 200]
   \<and> minSilenceSeconds (hd BOUNDARY_STRATEGIES) = Some (Num (3 / 2))
   \<and> num_lt (Num 200) (num_mul (Num (3 / 2)) (Num 1000))
   \<and> frames_for_grouping short_silence_lines (hd BOUNDARY_STRATEGIES)
         [(Num 9800, Num 10000, Num 200)]
       = [\<lparr>filterNum = Num 11, frameNum = Num 297, time = Num 9900\<rparr>]"
  by (simp add: short_silence_found short_silence_blackframes tree_insert_def
      frames_for_grouping_def silence_test_def tree_search_def sort_with_def
      BOUNDARY_STRATEGIES_def number_eval)

section \<open>The order of the events that enter the grouping\<close>

lemma unordered_blackframes:
  "blackframes unordered_lines =
     [\<lparr>filterNum = Num 13, frameNum = Num 11, time = Num 1100\<rparr>,
      \<lparr>filterNum = Num 13, frameNum = Num 10, time = Num 1000\<rparr>]"
  by (simp add: unordered_lines_def blackframes_def blackframe_of_def parse_eval)

text \<open>
  Claim C3. The claim asks that the events enter the grouping ordered by filter and then
  by frame number. This is the source run on two lines of filter 13 that arrive with
  frame 11 before frame 10: the comparator reads the properties \<open>filterNum\<close> and
  \<open>frame\<close>, an event has no property \<open>frame\<close>, the two events compare as equal, and
  they stay in the order of the lines.
\<close>

theorem frames_for_grouping_keeps_line_order:
  "frames_for_grouping unordered_lines NEWS_BANNER_STRATEGY []
     = [\<lparr>filterNum = Num 13, frameNum = Num 11, time = Num 1100\<rparr>,
        \<lparr>filterNum = Num 13, frameNum = Num 10, time = Num 1000\<rparr>]
   \<and> compareFunc [''filterNum'', ''frame'']
         \<lparr>filterNum = Num 13, frameNum = Num 11, time = Num 1100\<rparr>
         \<lparr>filterNum = Num 13, frameNum = Num 10, time = Num 1000\<rparr> = 0
   \<and> num_lt (Num 10) (Num 11)"
  by (simp add: unordered_blackframes frames_for_grouping_def silence_test_def tree_search_def
      sort_with_def getProp_def NEWS_BANNER_STRATEGY_def number_eval)

section \<open>Evaluation of the rendering\<close>

lemma digits_of_nat_numeral:
  "digits_of_nat (numeral k) =
     (if (numeral k :: nat) < 10 then [digit_char (numeral k)]
      else digits_of_nat (numeral k div 10) @ [digit_char (numeral k mod 10)])"
  by (rule digits_of_nat.simps)

lemma digits_of_nat_small:
  "digits_of_nat 0 = ''0''" "digits_of_nat 1 = ''1''" "digits_of_nat (Suc 0) = ''1''"
  by (simp_all add: digits_of_nat.simps [of 0] digits_of_nat.simps [of 1]
      digits_of_nat.simps [of "Suc 0"] digit_char_def)

lemmas decimal_eval = digits_of_nat_numeral digits_of_nat_small digit_char_def

section \<open>The nested time expression\<close>

lemma generateTimeSequence_Nil:
  "generateTimeSequence str calcValue [] defaultWidth = str (calcValue defaultWidth)"
  by (simp add: generateTimeSequence.simps)

lemma generateTimeSequence_snoc:
  "generateTimeSequence str calcValue (earlier @ [obs]) defaultWidth =
     (if \<not> truthy (time obs) then str (calcValue (CropParameters.width obs))
      else ''if(gte(t,'' @ str (num_div (time obs) (Num 1000)) @ ''),''
           @ str (calcValue (CropParameters.width obs)) @ '',''
           @ generateTimeSequence str calcValue earlier defaultWidth @ '')'')"
  by (subst generateTimeSequence.simps) simp

lemma generateTimeSequence_closed:
  "list_all (\<lambda>p. truthy (time p)) observations \<Longrightarrow>
     generateTimeSequence str calcValue observations defaultWidth =
       concat (map (\<lambda>p. ''if(gte(t,'' @ str (num_div (time p) (Num 1000)) @ ''),''
                          @ str (calcValue (CropParameters.width p)) @ '','') (rev observations))
       @ str (calcValue defaultWidth) @ replicate (length observations) (CHR '')'')"
proof (induction observations rule: rev_induct)
  case Nil
  show ?case by (simp add: generateTimeSequence_Nil)
next
  case (snoc obs earlier)
  then have "truthy (time obs)" and "list_all (\<lambda>p. truthy (time p)) earlier" by simp_all
  then show ?case
    using snoc.IH by (simp add: generateTimeSequence_snoc replicate_append_same)
qed

text \<open>
  Claim C5, as amended. With no observation left \<open>generateTimeSequence\<close> writes the
  value for the default width. With a last observation whose time is a number other than
  zero it writes \<open>if(gte(t,T),V,E)\<close>, where \<open>T\<close> is that time in seconds, \<open>V\<close> the value
  for that observation's width and \<open>E\<close> the expression for the observations before it.
  A last observation at time zero (or \<open>NaN\<close>) ends the nesting with the value for its own
  width. So for observations that all have such a non-zero time the expression nests one
  condition per observation, the most recent outermost, and its innermost else branch is
  the value for the default width.
\<close>

theorem generateTimeSequence_nests_down_to_default:
  "generateTimeSequence str calcValue [] defaultWidth = str (calcValue defaultWidth)
   \<and> (truthy (time obs) \<longrightarrow>
        generateTimeSequence str calcValue (earlier @ [obs]) defaultWidth =
          ''if(gte(t,'' @ str (num_div (time obs) (Num 1000)) @ ''),''
          @ str (calcValue (CropParameters.width obs)) @ '',''
          @ generateTimeSequence str calcValue earlier defaultWidth @ '')'')
   \<and> (\<not> truthy (time obs) \<longrightarrow>
        generateTimeSequence str calcValue (earlier @ [obs]) defaultWidth =
          str (calcValue (CropParameters.width obs)))
   \<and> (list_all (\<lambda>p. truthy (time p)) observations \<longrightarrow>
        generateTimeSequence str calcValue observations defaultWidth =
          concat (map (\<lambda>p. ''if(gte(t,'' @ str (num_div (time p) (Num 1000)) @ ''),''
                             @ str (calcValue (CropParameters.width p)) @ '','') (rev observations))
          @ str (calcValue defaultWidth) @ replicate (length observations) (CHR '')''))"
  using generateTimeSequence_closed [of observations str calcValue defaultWidth]
  by (simp add: generateTimeSequence_Nil generateTimeSequence_snoc)

text \<open>
  The claim as it was stated, with the earliest observation's value as the innermost else
  branch, fails for a single observation of width 1440 at 1000 milliseconds under the
  default width 1920 and the overlay offset: the else branch is the offset 0 of the
  default width, not the offset -240 of the observation.
\<close>

theorem generateTimeSequence_innermost_counterexample:
  "generateTimeSequence decimal (makeCalculateOverlayPosition (Num 1920))
     [\<lparr>time = Num 1000, width = Num 1440\<rparr>] (Num 1920) = ''if(gte(t,1),-240,0)''
   \<and> decimal (makeCalculateOverlayPosition (Num 1920) (Num 1440)) = ''-240''
   \<and> decimal (makeCalculateOverlayPosition (Num 1920) (Num 1920)) = ''0''
   \<and> generateTimeSequence decimal (makeCalculateOverlayPosition (Num 1920))
     [\<lparr>time = Num 1000, width = Num 1440\<rparr>] (Num 1920) \<noteq> ''if(gte(t,1),-240,-240)''"
  using generateTimeSequence_snoc [of decimal "makeCalculateOverlayPosition (Num 1920)" "[]"]
  by (simp add: generateTimeSequence_Nil makeCalculateOverlayPosition_def number_eval decimal_eval)

theorem generateTimeSequence_nests_down_to_default_witness:
  "truthy (Num 2000) \<and> list_all (\<lambda>p. truthy (time p))
      [\<lparr>time = Num 1000, width = Num 1440\<rparr>, \<lparr>time = Num 2000, width = Num 1920\<rparr>]
   \<and> \<not> truthy (Num 0)
   \<and> generateTimeSequence decimal (makeCalculateOverlayPosition (Num 1920))
       [\<lparr>time = Num 1000, width = Num 1440\<rparr>, \<lparr>time = Num 2000, width = Num 1920\<rparr>]
       (Num 1920) = ''if(gte(t,2),0,if(gte(t,1),-240,0))''
   \<and> generateTimeSequence decimal (makeCalculateOverlayPosition (Num 1920))
       [\<lparr>time = Num 0, width = Num 1440\<rparr>] (Num 1920) = ''-240''"
proof -
  let ?f = "makeCalculateOverlayPosition (Num 1920)"
  let ?a = "\<lparr>time = Num 1000, width = Num 1440\<rparr>"
  let ?b = "\<lparr>time = Num 2000, width = Num 1920\<rparr>"
  let ?z = "\<lparr>time = Num 0, width = Num 1440\<rparr>"
  have all: "list_all (\<lambda>p. truthy (time p)) [?a, ?b]" by (simp add: truthy_def)
  have zero: "\<not> truthy (time ?z)" by (simp add: truthy_def)
  from generateTimeSequence_nests_down_to_default [of decimal ?f "Num 1920" ?z "[]" "[?a, ?b]"] all zero
  have "generateTimeSequence decimal ?f [?a, ?b] (Num 1920) =
          concat (map (\<lambda>p. ''if(gte(t,'' @ decimal (num_div (time p) (Num 1000)) @ ''),''
                             @ decimal (?f (CropParameters.width p)) @ '','') (rev [?a, ?b]))
          @ decimal (?f (Num 1920)) @ replicate (length [?a, ?b]) (CHR '')'')"
    and "generateTimeSequence decimal ?f ([] @ [?z]) (Num 1920) = decimal (?f (CropParameters.width ?z))"
    by blast+
  then show ?thesis
    by (simp add: makeCalculateOverlayPosition_def number_eval decimal_eval)
qed

section \<open>The arguments of the post-processing\<close>

lemma generateFilterChain_no_crop:
  "generateFilterChain str start_ms [] hasThumbnail targetWidth targetHeight =
     (if hasThumbnail
      then [''-filter_complex'',
            ''[1:2]setpts=PTS+'' @ str (num_div start_ms (Num 1000)) @ ''/TB[tn]'']
      else [])"
  by (simp add: generateFilterChain_def)

lemma generateFilterChain_crop:
  "cropParameters \<noteq> [] \<Longrightarrow>
   generateFilterChain str start_ms cropParameters hasThumbnail targetWidth targetHeight =
     [''-filter_complex'',
      join '';''
        ([''nullsrc=size='' @ str targetWidth @ ''x'' @ str targetHeight @ '':r=29.97[base]'',
          ''[base][0:0]overlay='' @ [CHR 0x27]
            @ generateTimeSequence str (makeCalculateOverlayPosition targetWidth)
                cropParameters targetWidth
            @ [CHR 0x27] @ '':0:shortest=1[o]'',
          ''[o]scale='' @ [CHR 0x27]
            @ generateTimeSequence str (makeCalculateScaleWidth targetWidth)
                cropParameters targetWidth
            @ [CHR 0x27] @ '':-1:eval=frame:flags=bicubic[s]'',
          ''[s]crop='' @ str targetWidth @ '':'' @ str targetHeight @ '':0:0[c]'']
         @ (if hasThumbnail
            then [''[1:2]setpts=PTS+'' @ str (num_div start_ms (Num 1000)) @ ''/TB[tn]'']
            else []))]"
  by (simp add: generateFilterChain_def Let_def)

lemma generateFilterChain_no_to:
  "''-to'' \<notin> set (generateFilterChain str start_ms cropParameters hasThumbnail
                      targetWidth targetHeight)"
proof (cases "cropParameters = []")
  case True
  then show ?thesis by (simp add: generateFilterChain_no_crop)
next
  case False
  then show ?thesis by (simp add: generateFilterChain_crop)
qed

text \<open>
  Claim C6, as amended. With no crop observation no correction filter is written: the
  filter graph is absent when there is no thumbnail and holds only the thumbnail's
  \<open>setpts\<close> filter when there is one, and the video stream is mapped as \<open>0:0\<close> under
  \<open>-codec copy\<close>. With crop observations the filter graph starts with the four
  correction filters, the last of them labelled \<open>[c]\<close>, and the video is mapped from
  \<open>[c]\<close> and encoded with \<open>libx264\<close>. In both cases the audio stream \<open>0:1\<close> and the
  metadata of input 0 are mapped, under \<open>-codec copy\<close>.
\<close>

theorem post_process_video_mapping:
  "generateFilterChain str start_ms [] False targetWidth targetHeight = []
   \<and> generateFilterChain str start_ms [] True targetWidth targetHeight =
       [''-filter_complex'',
        ''[1:2]setpts=PTS+'' @ str (num_div start_ms (Num 1000)) @ ''/TB[tn]'']
   \<and> getFfmpegPostProcessArguments str config inputPath outputPath start_ms end_ms []
         hasThumbnail targetWidth targetHeight =
       [''-y'']
       @ (if num_lt (Num 0) (threadLimit config)
          then [''-threads'', str (threadLimit config)] else [])
       @ [''-i'', inputPath]
       @ (if hasThumbnail then [''-i'', inputPath] else [])
       @ [''-ss'', str (num_div start_ms (Num 1000))]
       @ (if truthy end_ms then [''-to'', str (num_div end_ms (Num 1000))] else [])
       @ [''-codec'', ''copy'']
       @ (if hasThumbnail
          then [''-filter_complex'',
                ''[1:2]setpts=PTS+'' @ str (num_div start_ms (Num 1000)) @ ''/TB[tn]'']
          else [])
       @ [''-map'', ''0:0'', ''-map'', ''0:1'']
       @ (if hasThumbnail
          then [''-map'', ''[tn]'', ''-codec:v:1'', ''mjpeg'',
                ''-disposition:v:1'', ''attached_pic'']
          else [])
       @ [''-map_metadata'', ''0'', ''-f'', ''mp4'', outputPath]
   \<and> (cropParameters \<noteq> [] \<longrightarrow>
        getFfmpegPostProcessArguments str config inputPath outputPath start_ms end_ms
          cropParameters hasThumbnail targetWidth targetHeight =
        [''-y'']
        @ (if num_lt (Num 0) (threadLimit config)
           then [''-threads'', str (threadLimit config)] else [])
        @ [''-i'', inputPath]
        @ (if hasThumbnail then [''-i'', inputPath] else [])
        @ [''-ss'', str (num_div start_ms (Num 1000))]
        @ (if truthy end_ms then [''-to'', str (num_div end_ms (Num 1000))] else [])
        @ [''-codec'', ''copy'']
        @ [''-filter_complex'',
           join '';''
             ([''nullsrc=size='' @ str targetWidth @ ''x'' @ str targetHeight
                 @ '':r=29.97[base]'',
               ''[base][0:0]overlay='' @ [CHR 0x27]
                 @ generateTimeSequence str (makeCalculateOverlayPosition targetWidth)
                     cropParameters targetWidth
                 @ [CHR 0x27] @ '':0:shortest=1[o]'',
               ''[o]scale='' @ [CHR 0x27]
                 @ generateTimeSequence str (makeCalculateScaleWidth targetWidth)
                     cropParameters targetWidth
                 @ [CHR 0x27] @ '':-1:eval=frame:flags=bicubic[s]'',
               ''[s]crop='' @ str targetWidth @ '':'' @ str targetHeight @ '':0:0[c]'']
              @ (if hasThumbnail
                 then [''[1:2]setpts=PTS+'' @ str (num_div start_ms (Num 1000)) @ ''/TB[tn]'']
                 else []))]
        @ [''-map'', ''[c]'', ''-crf'', ''19'', ''-preset'', ''veryfast'',
           ''-codec:v:0'', ''libx264'', ''-map'', ''0:1'']
        @ (if hasThumbnail
           then [''-map'', ''[tn]'', ''-codec:v:1'', ''mjpeg'',
                 ''-disposition:v:1'', ''attached_pic'']
           else [])
        @ [''-map_metadata'', ''0'', ''-f'', ''mp4'', outputPath])"
proof (intro conjI impI)
  show "generateFilterChain str start_ms [] False targetWidth targetHeight = []"
    by (simp add: generateFilterChain_no_crop)
  show "generateFilterChain str start_ms [] True targetWidth targetHeight =
       [''-filter_complex'',
        ''[1:2]setpts=PTS+'' @ str (num_div start_ms (Num 1000)) @ ''/TB[tn]'']"
    by (simp add: generateFilterChain_no_crop)
  show "getFfmpegPostProcessArguments str config inputPath outputPath start_ms end_ms []
         hasThumbnail targetWidth targetHeight =
       [''-y'']
       @ (if num_lt (Num 0) (threadLimit config)
          then [''-threads'', str (threadLimit config)] else [])
       @ [''-i'', inputPath]
       @ (if hasThumbnail then [''-i'', inputPath] else [])
       @ [''-ss'', str (num_div start_ms (Num 1000))]
       @ (if truthy end_ms then [''-to'', str (num_div end_ms (Num 1000))] else [])
       @ [''-codec'', ''copy'']
       @ (if hasThumbnail
          then [''-filter_complex'',
                ''[1:2]setpts=PTS+'' @ str (num_div start_ms (Num 1000)) @ ''/TB[tn]'']
          else [])
       @ [''-map'', ''0:0'', ''-map'', ''0:1'']
       @ (if hasThumbnail
          then [''-map'', ''[tn]'', ''-codec:v:1'', ''mjpeg'',
                ''-disposition:v:1'', ''attached_pic'']
          else [])
       @ [''-map_metadata'', ''0'', ''-f'', ''mp4'', outputPath]"
    unfolding getFfmpegPostProcessArguments_def generateFilterChain_no_crop by simp
next
  assume ne: "cropParameters \<noteq> []"
  show "getFfmpegPostProcessArguments str config inputPath outputPath start_ms end_ms
          cropParameters hasThumbnail targetWidth targetHeight =
        [''-y'']
        @ (if num_lt (Num 0) (threadLimit config)
           then [''-threads'', str (threadLimit config)] else [])
        @ [''-i'', inputPath]
        @ (if hasThumbnail then [''-i'', inputPath] else [])
        @ [''-ss'', str (num_div start_ms (Num 1000))]
        @ (if truthy end_ms then [''-to'', str (num_div end_ms (Num 1000))] else [])
        @ [''-codec'', ''copy'']
        @ [''-filter_complex'',
           join '';''
             ([''nullsrc=size='' @ str targetWidth @ ''x'' @ str targetHeight
                 @ '':r=29.97[base]'',
               ''[base][0:0]overlay='' @ [CHR 0x27]
                 @ generateTimeSequence str (makeCalculateOverlayPosition targetWidth)
                     cropParameters targetWidth
                 @ [CHR 0x27] @ '':0:shortest=1[o]'',
               ''[o]scale='' @ [CHR 0x27]
                 @ generateTimeSequence str (makeCalculateScaleWidth targetWidth)
                     cropParameters targetWidth
                 @ [CHR 0x27] @ '':-1:eval=frame:flags=bicubic[s]'',
               ''[s]crop='' @ str targetWidth @ '':'' @ str targetHeight @ '':0:0[c]'']
              @ (if hasThumbnail
                 then [''[1:2]setpts=PTS+'' @ str (num_div start_ms (Num 1000)) @ ''/TB[tn]'']
                 else []))]
        @ [''-map'', ''[c]'', ''-crf'', ''19'', ''-preset'', ''veryfast'',
           ''-codec:v:0'', ''libx264'', ''-map'', ''0:1'']
        @ (if hasThumbnail
           then [''-map'', ''[tn]'', ''-codec:v:1'', ''mjpeg'',
                 ''-disposition:v:1'', ''attached_pic'']
           else [])
        @ [''-map_metadata'', ''0'', ''-f'', ''mp4'', outputPath]"
    unfolding getFfmpegPostProcessArguments_def generateFilterChain_crop [OF ne]
    using ne by simp
qed

text \<open>
  The claim as it was stated, with no filter graph for an empty crop sequence, fails when
  the input has a thumbnail: the argument list holds \<open>-filter_complex\<close> with the
  thumbnail's filter.
\<close>

theorem post_process_thumbnail_graph_counterexample:
  "generateFilterChain decimal (Num 5000) [] True (Num 1920) (Num 1080) =
     [''-filter_complex'', ''[1:2]setpts=PTS+5/TB[tn]'']
   \<and> getFfmpegPostProcessArguments decimal \<lparr>threadLimit = Num 0\<rparr> ''in.mp4'' ''out.mp4''
       (Num 5000) (Num 0) [] True (Num 1920) (Num 1080) =
     [''-y'', ''-i'', ''in.mp4'', ''-i'', ''in.mp4'', ''-ss'', ''5'', ''-codec'', ''copy'',
      ''-filter_complex'', ''[1:2]setpts=PTS+5/TB[tn]'',
      ''-map'', ''0:0'', ''-map'', ''0:1'',
      ''-map'', ''[tn]'', ''-codec:v:1'', ''mjpeg'', ''-disposition:v:1'', ''attached_pic'',
      ''-map_metadata'', ''0'', ''-f'', ''mp4'', ''out.mp4'']"
  by (simp add: getFfmpegPostProcessArguments_def generateFilterChain_no_crop
      number_eval decimal_eval)

theorem post_process_video_mapping_witness:
  "[\<lparr>time = Num 1000, width = Num 1440\<rparr>] \<noteq> []
   \<and> getFfmpegPostProcessArguments decimal \<lparr>threadLimit = Num 2\<rparr> ''in.mp4'' ''out.mp4''
       (Num 5000) (Num 60000) [\<lparr>time = Num 1000, width = Num 1440\<rparr>] False
       (Num 1920) (Num 1080) =
     [''-y'', ''-threads'', ''2'', ''-i'', ''in.mp4'', ''-ss'', ''5'', ''-to'', ''60'',
      ''-codec'', ''copy'', ''-filter_complex'',
      ''nullsrc=size=1920x1080:r=29.97[base];[base][0:0]overlay='' @ [CHR 0x27]
        @ ''if(gte(t,1),-240,0)'' @ [CHR 0x27] @ '':0:shortest=1[o];[o]scale='' @ [CHR 0x27]
        @ ''if(gte(t,1),2560,1920)'' @ [CHR 0x27]
        @ '':-1:eval=frame:flags=bicubic[s];[s]crop=1920:1080:0:0[c]'',
      ''-map'', ''[c]'', ''-crf'', ''19'', ''-preset'', ''veryfast'',
      ''-codec:v:0'', ''libx264'', ''-map'', ''0:1'',
      ''-map_metadata'', ''0'', ''-f'', ''mp4'', ''out.mp4'']"
proof -
  let ?obs = "\<lparr>time = Num 1000, width = Num 1440\<rparr>"
  have ne: "[?obs] \<noteq> []" by simp
  have pos: "generateTimeSequence decimal (makeCalculateOverlayPosition (Num 1920)) [?obs]
      (Num 1920) = ''if(gte(t,1),-240,0)''"
    using generateTimeSequence_snoc [of decimal "makeCalculateOverlayPosition (Num 1920)" "[]"]
    by (simp add: generateTimeSequence_Nil makeCalculateOverlayPosition_def number_eval
        decimal_eval)
  have scale: "generateTimeSequence decimal (makeCalculateScaleWidth (Num 1920)) [?obs]
      (Num 1920) = ''if(gte(t,1),2560,1920)''"
    using generateTimeSequence_snoc [of decimal "makeCalculateScaleWidth (Num 1920)" "[]"]
    by (simp add: generateTimeSequence_Nil makeCalculateScaleWidth_def number_eval
        decimal_eval)
  from post_process_video_mapping [of decimal "Num 5000" "Num 1920" "Num 1080" "\<lparr>threadLimit = Num 2\<rparr>"
      "''in.mp4''" "''out.mp4''" "Num 60000" False "[?obs]"] ne
  have "getFfmpegPostProcessArguments decimal \<lparr>threadLimit = Num 2\<rparr> ''in.mp4'' ''out.mp4''
       (Num 5000) (Num 60000) [?obs] False (Num 1920) (Num 1080) =
        [''-y'']
        @ (if num_lt (Num 0) (threadLimit \<lparr>threadLimit = Num 2\<rparr>)
           then [''-threads'', decimal (threadLimit \<lparr>threadLimit = Num 2\<rparr>)] else [])
        @ [''-i'', ''in.mp4'']
        @ (if False then [''-i'', ''in.mp4''] else [])
        @ [''-ss'', decimal (num_div (Num 5000) (Num 1000))]
        @ (if truthy (Num 60000) then [''-to'', decimal (num_div (Num 60000) (Num 1000))] else [])
        @ [''-codec'', ''copy'']
        @ [''-filter_complex'',
           join '';''
             ([''nullsrc=size='' @ decimal (Num 1920) @ ''x'' @ decimal (Num 1080)
                 @ '':r=29.97[base]'',
               ''[base][0:0]overlay='' @ [CHR 0x27]
                 @ generateTimeSequence decimal (makeCalculateOverlayPosition (Num 1920))
                     [?obs] (Num 1920)
                 @ [CHR 0x27] @ '':0:shortest=1[o]'',
               ''[o]scale='' @ [CHR 0x27]
                 @ generateTimeSequence decimal (makeCalculateScaleWidth (Num 1920))
                     [?obs] (Num 1920)
                 @ [CHR 0x27] @ '':-1:eval=frame:flags=bicubic[s]'',
               ''[s]crop='' @ decimal (Num 1920) @ '':'' @ decimal (Num 1080) @ '':0:0[c]'']
              @ (if False
                 then [''[1:2]setpts=PTS+'' @ decimal (num_div (Num 5000) (Num 1000)) @ ''/TB[tn]'']
                 else []))]
        @ [''-map'', ''[c]'', ''-crf'', ''19'', ''-preset'', ''veryfast'',
           ''-codec:v:0'', ''libx264'', ''-map'', ''0:1'']
        @ (if False
           then [''-map'', ''[tn]'', ''-codec:v:1'', ''mjpeg'',
                 ''-disposition:v:1'', ''attached_pic'']
           else [])
        @ [''-map_metadata'', ''0'', ''-f'', ''mp4'', ''out.mp4'']"
    by blast
  then show ?thesis
    unfolding pos scale by (simp add: number_eval decimal_eval)
qed

text \<open>
  Claim C10. With the end time 0 the argument list goes from \<open>-ss\<close> and the start time
  straight to \<open>-codec copy\<close>; it holds no \<open>-to\<close> at all, as long as neither a path nor a
  rendered number is the text \<open>-to\<close>. With an end time that is a number other than zero
  \<open>-to\<close> and the end time stand between them.
\<close>

theorem end_zero_gives_no_end_trim:
  "getFfmpegPostProcessArguments str config inputPath outputPath start_ms (Num 0)
       cropParameters hasThumbnail targetWidth targetHeight =
     [''-y'']
     @ (if num_lt (Num 0) (threadLimit config)
        then [''-threads'', str (threadLimit config)] else [])
     @ [''-i'', inputPath]
     @ (if hasThumbnail then [''-i'', inputPath] else [])
     @ [''-ss'', str (num_div start_ms (Num 1000)), ''-codec'', ''copy'']
     @ generateFilterChain str start_ms cropParameters hasThumbnail targetWidth targetHeight
     @ (if cropParameters \<noteq> []
        then [''-map'', ''[c]'', ''-crf'', ''19'', ''-preset'', ''veryfast'',
              ''-codec:v:0'', ''libx264'']
        else [''-map'', ''0:0''])
     @ [''-map'', ''0:1'']
     @ (if hasThumbnail
        then [''-map'', ''[tn]'', ''-codec:v:1'', ''mjpeg'',
              ''-disposition:v:1'', ''attached_pic'']
        else [])
     @ [''-map_metadata'', ''0'', ''-f'', ''mp4'', outputPath]
   \<and> ((\<forall>n. str n \<noteq> ''-to'') \<and> inputPath \<noteq> ''-to'' \<and> outputPath \<noteq> ''-to'' \<longrightarrow>
        ''-to'' \<notin> set (getFfmpegPostProcessArguments str config inputPath outputPath start_ms
                          (Num 0) cropParameters hasThumbnail targetWidth targetHeight))
   \<and> (truthy end_ms \<longrightarrow>
        (\<exists>before after.
           getFfmpegPostProcessArguments str config inputPath outputPath start_ms end_ms
             cropParameters hasThumbnail targetWidth targetHeight =
           before @ [''-ss'', str (num_div start_ms (Num 1000)),
                     ''-to'', str (num_div end_ms (Num 1000)), ''-codec'', ''copy''] @ after))"
proof (intro conjI impI)
  show "getFfmpegPostProcessArguments str config inputPath outputPath start_ms (Num 0)
       cropParameters hasThumbnail targetWidth targetHeight =
     [''-y'']
     @ (if num_lt (Num 0) (threadLimit config)
        then [''-threads'', str (threadLimit config)] else [])
     @ [''-i'', inputPath]
     @ (if hasThumbnail then [''-i'', inputPath] else [])
     @ [''-ss'', str (num_div start_ms (Num 1000)), ''-codec'', ''copy'']
     @ generateFilterChain str start_ms cropParameters hasThumbnail targetWidth targetHeight
     @ (if cropParameters \<noteq> []
        then [''-map'', ''[c]'', ''-crf'', ''19'', ''-preset'', ''veryfast'',
              ''-codec:v:0'', ''libx264'']
        else [''-map'', ''0:0''])
     @ [''-map'', ''0:1'']
     @ (if hasThumbnail
        then [''-map'', ''[tn]'', ''-codec:v:1'', ''mjpeg'',
              ''-disposition:v:1'', ''attached_pic'']
        else [])
     @ [''-map_metadata'', ''0'', ''-f'', ''mp4'', outputPath]"
    by (simp add: getFfmpegPostProcessArguments_def truthy_def)
next
  assume "(\<forall>n. str n \<noteq> ''-to'') \<and> inputPath \<noteq> ''-to'' \<and> outputPath \<noteq> ''-to''"
  then show "''-to'' \<notin> set (getFfmpegPostProcessArguments str config inputPath outputPath
                start_ms (Num 0) cropParameters hasThumbnail targetWidth targetHeight)"
    using generateFilterChain_no_to
      [of str start_ms cropParameters hasThumbnail targetWidth targetHeight]
    by (auto simp: getFfmpegPostProcessArguments_def truthy_def)
next
  assume t: "truthy end_ms"
  let ?before = "[''-y'']
     @ (if num_lt (Num 0) (threadLimit config)
        then [''-threads'', str (threadLimit config)] else [])
     @ [''-i'', inputPath]
     @ (if hasThumbnail then [''-i'', inputPath] else [])"
  let ?after = "generateFilterChain str start_ms cropParameters hasThumbnail targetWidth targetHeight
     @ (if 0 < length cropParameters
        then [''-map'', ''[c]'', ''-crf'', ''19'', ''-preset'', ''veryfast'',
              ''-codec:v:0'', ''libx264'']
        else [''-map'', ''0:0''])
     @ [''-map'', ''0:1'']
     @ (if hasThumbnail
        then [''-map'', ''[tn]'', ''-codec:v:1'', ''mjpeg'',
              ''-disposition:v:1'', ''attached_pic'']
        else [])
     @ [''-map_metadata'', ''0'']
     @ [''-f'', ''mp4'']
     @ [outputPath]"
  have "getFfmpegPostProcessArguments str config inputPath outputPath start_ms end_ms
             cropParameters hasThumbnail targetWidth targetHeight =
           ?before @ [''-ss'', str (num_div start_ms (Num 1000)),
                     ''-to'', str (num_div end_ms (Num 1000)), ''-codec'', ''copy''] @ ?after"
    using t unfolding getFfmpegPostProcessArguments_def by simp
  then show "\<exists>before after.
           getFfmpegPostProcessArguments str config inputPath outputPath start_ms end_ms
             cropParameters hasThumbnail targetWidth targetHeight =
           before @ [''-ss'', str (num_div start_ms (Num 1000)),
                     ''-to'', str (num_div end_ms (Num 1000)), ''-codec'', ''copy''] @ after"
    by blast
qed

lemma digit_char_is_digit: "digit_char n \<in> set ''0123456789''"
  unfolding digit_char_def by (rule nth_mem) simp

lemma digits_of_nat_chars: "set (digits_of_nat k) \<subseteq> set ''0123456789''"
proof (induction k rule: digits_of_nat.induct)
  case (1 n)
  show ?case
  proof (cases "n < 10")
    case True
    then show ?thesis
      using digit_char_is_digit [of n] by (subst digits_of_nat.simps) simp
  next
    case False
    then show ?thesis
      using 1 digit_char_is_digit [of "n mod 10"] by (subst digits_of_nat.simps) simp
  qed
qed

lemma fraction_digits_chars: "set (fraction_digits k r) \<subseteq> set ''0123456789''"
proof (induction k arbitrary: r)
  case 0
  show ?case by simp
next
  case (Suc k)
  show ?case
    using Suc [of "r * 10 - of_int \<lfloor>r * 10\<rfloor>"] digit_char_is_digit [of "nat \<lfloor>r * 10\<rfloor>"]
    by simp
qed

lemma decimal_not_to: "decimal n \<noteq> ''-to''"
proof (cases n)
  case (Num x)
  have "CHR ''t'' \<notin> set (digits_of_nat k)" for k
    using digits_of_nat_chars [of k] by auto
  moreover have "CHR ''t'' \<notin> set (fraction_digits k r)" for k r
    using fraction_digits_chars [of k r] by auto
  ultimately have "CHR ''t'' \<notin> set (decimal n)"
    unfolding Num by simp
  then show ?thesis by auto
qed simp_all

theorem end_zero_gives_no_end_trim_witness:
  "(\<forall>n. decimal n \<noteq> ''-to'') \<and> ''in.mp4'' \<noteq> ''-to'' \<and> ''out.mp4'' \<noteq> ''-to''
   \<and> ''-to'' \<notin> set (getFfmpegPostProcessArguments decimal \<lparr>threadLimit = Num 2\<rparr>
                      ''in.mp4'' ''out.mp4'' (Num 5000) (Num 0) [] True (Num 1920) (Num 1080))
   \<and> truthy (Num 60000)
   \<and> take 6 (drop 5 (getFfmpegPostProcessArguments decimal \<lparr>threadLimit = Num 2\<rparr>
                      ''in.mp4'' ''out.mp4'' (Num 5000) (Num 60000) [] False (Num 1920) (Num 1080)))
       = [''-ss'', ''5'', ''-to'', ''60'', ''-codec'', ''copy'']"
proof -
  have hyp: "(\<forall>n. decimal n \<noteq> ''-to'') \<and> ''in.mp4'' \<noteq> ''-to'' \<and> ''out.mp4'' \<noteq> ''-to''"
    using decimal_not_to by simp
  have absent: "''-to'' \<notin> set (getFfmpegPostProcessArguments decimal \<lparr>threadLimit = Num 2\<rparr>
                      ''in.mp4'' ''out.mp4'' (Num 5000) (Num 0) [] True (Num 1920) (Num 1080))"
    using end_zero_gives_no_end_trim [of decimal "\<lparr>threadLimit = Num 2\<rparr>" "''in.mp4''" "''out.mp4''" "Num 5000"
        "[]" True "Num 1920" "Num 1080" "Num 0"] hyp
    by blast
  have present: "take 6 (drop 5 (getFfmpegPostProcessArguments decimal \<lparr>threadLimit = Num 2\<rparr>
                      ''in.mp4'' ''out.mp4'' (Num 5000) (Num 60000) [] False (Num 1920) (Num 1080)))
       = [''-ss'', ''5'', ''-to'', ''60'', ''-codec'', ''copy'']"
    by (simp add: getFfmpegPostProcessArguments_def number_eval decimal_eval)
  show ?thesis using hyp absent present by (simp add: truthy_def)
qed

section \<open>The probed dimensions and their default\<close>

text \<open>
  Claim C8. \<open>getVideoDimensions\<close> returns the fields \<open>width\<close> and \<open>height\<close> of the first
  stream when they are there, and \<open>coded_width\<close> and \<open>coded_height\<close> when the first two
  are missing (a dimension of 0 counts as unreadable); it fails when all four are missing
  or there is no stream. Whatever the failure of \<open>getVideoDimensions\<close>,
  \<open>postProcessRecording\<close> goes on to run the encoder with the dimensions 1920 and 1080,
  and its result is the result of that run; when the probe succeeds it runs the encoder
  with the probed dimensions.
\<close>

theorem dimensions_fallback_and_default:
  "(truthy w \<and> truthy h \<longrightarrow>
      getVideoDimensions
        (Inr \<lparr>streams = Some (\<lparr>ProbeStream.width = Some w, ProbeStream.height = Some h,
                                coded_width = cw, coded_height = ch\<rparr> # others)\<rparr>)
      = Inr \<lparr>Dimensions.width = w, Dimensions.height = h\<rparr>)
   \<and> (truthy w \<and> truthy h \<longrightarrow>
      getVideoDimensions
        (Inr \<lparr>streams = Some (\<lparr>ProbeStream.width = None, ProbeStream.height = None,
                                coded_width = Some w, coded_height = Some h\<rparr> # others)\<rparr>)
      = Inr \<lparr>Dimensions.width = w, Dimensions.height = h\<rparr>)
   \<and> getVideoDimensions
        (Inr \<lparr>streams = Some (\<lparr>ProbeStream.width = None, ProbeStream.height = None,
                                coded_width = None, coded_height = None\<rparr> # others)\<rparr>)
      = Inl (Error ''Unable to read video dimensions'')
   \<and> getVideoDimensions (Inr \<lparr>streams = Some []\<rparr>)
      = Inl (Error ''Unable to read video dimensions'')
   \<and> getVideoDimensions (Inr \<lparr>streams = None\<rparr>)
      = Inl (Error ''Unable to read video dimensions'')
   \<and> (getVideoDimensions probed = Inl e \<longrightarrow>
        postProcessRecording str config (Inr streamCount) probed execute inputPath outputPath
          start_ms end_ms cropParameters
        = execute (getFfmpegPostProcessArguments str config inputPath outputPath start_ms
                     end_ms cropParameters (num_lt (Num 2) streamCount) (Num 1920) (Num 1080)))
   \<and> (getVideoDimensions probed = Inr dims \<longrightarrow>
        postProcessRecording str config (Inr streamCount) probed execute inputPath outputPath
          start_ms end_ms cropParameters
        = execute (getFfmpegPostProcessArguments str config inputPath outputPath start_ms
                     end_ms cropParameters (num_lt (Num 2) streamCount)
                     (Dimensions.width dims) (Dimensions.height dims)))"
  by (simp add: getVideoDimensions_def postProcessRecording_def FULL_CROP_WIDTH_def)

theorem dimensions_fallback_and_default_witness:
  "truthy (Num 1280) \<and> truthy (Num 720)
   \<and> getVideoDimensions
        (Inr \<lparr>streams = Some [\<lparr>ProbeStream.width = Some (Num 1280),
                                ProbeStream.height = Some (Num 720),
                                coded_width = Some (Num 1280), coded_height = Some (Num 736)\<rparr>]\<rparr>)
      = Inr \<lparr>Dimensions.width = Num 1280, Dimensions.height = Num 720\<rparr>
   \<and> getVideoDimensions
        (Inr \<lparr>streams = Some [\<lparr>ProbeStream.width = None, ProbeStream.height = None,
                                coded_width = Some (Num 1280), coded_height = Some (Num 720)\<rparr>]\<rparr>)
      = Inr \<lparr>Dimensions.width = Num 1280, Dimensions.height = Num 720\<rparr>
   \<and> getVideoDimensions (Inr \<lparr>streams = Some []\<rparr>)
      = Inl (Error ''Unable to read video dimensions'')
   \<and> postProcessRecording decimal \<lparr>threadLimit = Num 0\<rparr> (Inr (Num 2))
        (Inr \<lparr>streams = Some []\<rparr>)
        (\<lambda>args. if args = [''-y'', ''-i'', ''in.mp4'', ''-ss'', ''5'', ''-codec'', ''copy'',
                             ''-map'', ''0:0'', ''-map'', ''0:1'', ''-map_metadata'', ''0'',
                             ''-f'', ''mp4'', ''out.mp4'']
                 then Inr () else Inl (ExecuteFailed ''ffmpeg''))
        ''in.mp4'' ''out.mp4'' (Num 5000) (Num 0) []
      = Inr ()"
proof -
  let ?run = "\<lambda>args. if args = [''-y'', ''-i'', ''in.mp4'', ''-ss'', ''5'', ''-codec'', ''copy'',
                             ''-map'', ''0:0'', ''-map'', ''0:1'', ''-map_metadata'', ''0'',
                             ''-f'', ''mp4'', ''out.mp4'']
                 then Inr () else Inl (ExecuteFailed ''ffmpeg'')"
  have t: "truthy (Num 1280) \<and> truthy (Num 720)" by (simp add: truthy_def)
  note inst = dimensions_fallback_and_default [of "Num 1280" "Num 720" "Some (Num 1280)" "Some (Num 736)" "[]"
      "Inr \<lparr>streams = Some []\<rparr>" "Error ''Unable to read video dimensions''"
      decimal "\<lparr>threadLimit = Num 0\<rparr>" "Num 2" ?run "''in.mp4''" "''out.mp4''" "Num 5000"
      "Num 0" "[]"]
  have failed: "getVideoDimensions (Inr \<lparr>streams = Some []\<rparr>)
      = Inl (Error ''Unable to read video dimensions'')"
    using inst by blast
  have "postProcessRecording decimal \<lparr>threadLimit = Num 0\<rparr> (Inr (Num 2))
        (Inr \<lparr>streams = Some []\<rparr>) ?run ''in.mp4'' ''out.mp4'' (Num 5000) (Num 0) []
      = ?run (getFfmpegPostProcessArguments decimal \<lparr>threadLimit = Num 0\<rparr> ''in.mp4''
                ''out.mp4'' (Num 5000) (Num 0) [] (num_lt (Num 2) (Num 2)) (Num 1920) (Num 1080))"
    using inst failed by blast
  also have "\<dots> = Inr ()"
    by (simp add: getFfmpegPostProcessArguments_def generateFilterChain_no_crop
        number_eval decimal_eval)
  finally have run: "postProcessRecording decimal \<lparr>threadLimit = Num 0\<rparr> (Inr (Num 2))
        (Inr \<lparr>streams = Some []\<rparr>) ?run ''in.mp4'' ''out.mp4'' (Num 5000) (Num 0) []
      = Inr ()" .
  have primary: "getVideoDimensions
        (Inr \<lparr>streams = Some [\<lparr>ProbeStream.width = Some (Num 1280),
                                ProbeStream.height = Some (Num 720),
                                coded_width = Some (Num 1280), coded_height = Some (Num 736)\<rparr>]\<rparr>)
      = Inr \<lparr>Dimensions.width = Num 1280, Dimensions.height = Num 720\<rparr>"
    using inst t by blast
  have coded: "getVideoDimensions
        (Inr \<lparr>streams = Some [\<lparr>ProbeStream.width = None, ProbeStream.height = None,
                                coded_width = Some (Num 1280), coded_height = Some (Num 720)\<rparr>]\<rparr>)
      = Inr \<lparr>Dimensions.width = Num 1280, Dimensions.height = Num 720\<rparr>"
    using inst t by blast
  show ?thesis using t primary coded failed run by (intro conjI) simp_all
qed

end
